theory Spec2Isabelle
  imports Main "HOL-Library.Word"
begin

unbundle bit_operations_syntax

section \<open>C strings and formatting\<close>

text \<open>
  A C string is a \<^typ>\<open>string\<close>; a pointer that may be \<open>NULL\<close> is a
  \<^typ>\<open>string option\<close>. Bytes stored in a buffer carry their terminating NUL
  explicitly.
\<close>

definition NUL :: char where
  "NUL = CHR 0x00"

text \<open>\<open>strlen\<close> on the bytes of a buffer: the bytes before the first NUL.\<close>

definition c_str :: "string \<Rightarrow> string" where
  "c_str bs = takeWhile (\<lambda>c. c \<noteq> NUL) bs"

definition strlen :: "string \<Rightarrow> nat" where
  "strlen bs = length (c_str bs)"

text \<open>
  \<open>snprintf(buf, size, ...)\<close>: the bytes it stores, given the fully formatted text.
  At most \<open>n - 1\<close> characters (\<open>n\<close> the size passed) are kept and a NUL always follows them.
\<close>

definition snprintf :: "nat \<Rightarrow> string \<Rightarrow> string" where
  "snprintf n s = (if n = 0 then [] else take (n - 1) s @ [NUL])"

text \<open>The conversion \<open>%s\<close>; glibc prints a null pointer as \<open>(null)\<close>.\<close>

definition fmt_s :: "string option \<Rightarrow> string" where
  "fmt_s p = (case p of None \<Rightarrow> ''(null)'' | Some s \<Rightarrow> s)"

definition digit :: "nat \<Rightarrow> char" where
  "digit n = ''0123456789'' ! n"

text \<open>The conversion \<open>%d\<close> on a value that is not negative.\<close>

fun fmt_d :: "nat \<Rightarrow> string" where
  "fmt_d n = (if n < 10 then [digit n] else fmt_d (n div 10) @ [digit (n mod 10)])"

declare fmt_d.simps [simp del]

section \<open>Constants of \<open>cryptfs.c\<close>\<close>

definition TABLE_LOAD_RETRIES :: nat where
  "TABLE_LOAD_RETRIES = 10"

definition INTEGRITY_TAG_SIZE :: nat where
  "INTEGRITY_TAG_SIZE = 32"

definition AUTHENC_KEY_LEN :: nat where
  "AUTHENC_KEY_LEN = 96"

definition CRYPTO_TYPE_AUTHENC :: string where
  "CRYPTO_TYPE_AUTHENC = ''capi:authenc(hmac(sha256),xts(aes))-random''"

definition CRYPTO_TYPE :: string where
  "CRYPTO_TYPE = ''aes-xts-plain64''"

definition INTEGRITY_TYPE :: string where
  "INTEGRITY_TYPE = ''hmac(sha256)''"

text \<open>
  Modelled from the spec: \<open>CRYPTFS_FDE_KEY_LEN\<close> is declared in \<open>cryptfs.h\<close>, which
  is not among the sources; the spec gives the encryption key as 64 bytes.
\<close>

definition CRYPTFS_FDE_KEY_LEN :: nat where
  "CRYPTFS_FDE_KEY_LEN = 64"

definition CRYPTO_HEXKEY_LEN :: nat where
  "CRYPTO_HEXKEY_LEN = 2 * CRYPTFS_FDE_KEY_LEN"

definition INTEGRITY_HEXKEY_LEN :: nat where
  "INTEGRITY_HEXKEY_LEN = 2 * INTEGRITY_TAG_SIZE"

definition AUTHENC_HEXKEY_LEN :: nat where
  "AUTHENC_HEXKEY_LEN = 2 * AUTHENC_KEY_LEN"

definition DEVMAPPER_BUFFER_SIZE :: nat where
  "DEVMAPPER_BUFFER_SIZE = 4096"

definition DM_CRYPT_BUF_SIZE :: nat where
  "DM_CRYPT_BUF_SIZE = 4096"

definition DM_INTEGRITY_BUF_SIZE :: nat where
  "DM_INTEGRITY_BUF_SIZE = 4096"

definition ZERO_BUF_SIZE :: nat where
  "ZERO_BUF_SIZE = 100 * 1024 * 1024"

text \<open>
  The two structures of \<open>linux/dm-ioctl.h\<close> (the kernel's header): \<open>struct dm_ioctl\<close>
  is 312 bytes and \<open>struct dm_target_spec\<close> is 40 bytes.
\<close>

definition sizeof_dm_ioctl :: nat where
  "sizeof_dm_ioctl = 312"

definition sizeof_dm_target_spec :: nat where
  "sizeof_dm_target_spec = 40"

text \<open>
  Modelled from the spec: \<open>DM_CONTROL\<close> and \<open>DM_PATH_PREFIX\<close> are declared in
  \<open>dm.h\<close>, which is not among the sources; the spec gives the device path as
  \<open>/dev/mapper/<label>\<close>.
\<close>

definition DM_CONTROL :: string where
  "DM_CONTROL = ''/dev/mapper/control''"

definition DM_PATH_PREFIX :: string where
  "DM_PATH_PREFIX = ''/dev/mapper''"

definition cryptfs_get_device_path_new :: "string \<Rightarrow> string" where
  "cryptfs_get_device_path_new label = DM_PATH_PREFIX @ ''/'' @ label"

section \<open>The target descriptor in the ioctl buffer\<close>

text \<open>
  \<open>struct dm_target_spec\<close> as the loaders fill it, together with the parameter bytes
  that follow it in the buffer (\<open>tgt_params\<close>, terminator included).
\<close>

record dm_target =
  tgt_sector_start :: "64 word"
  tgt_length :: "64 word"
  tgt_status :: "32 word"
  tgt_next :: "32 word"
  tgt_target_type :: string
  tgt_params :: string

text \<open>
  The end of both loaders: step behind the parameter string, "align", and store the
  distance from the start of the buffer in \<open>tgt->next\<close>. \<open>buffer\<close> is the address of
  the buffer, \<open>params\<close> the bytes \<open>snprintf\<close> stored. The mask is \<open>~8\<close> as in the
  source.
\<close>

definition next_target_offset :: "64 word \<Rightarrow> string \<Rightarrow> 32 word" where
  "next_target_offset buffer params =
     (let p0 = buffer + of_nat sizeof_dm_ioctl + of_nat sizeof_dm_target_spec;
          p1 = p0 + of_nat (strlen params) + 1;
          p2 = (p1 + 7) AND NOT 8
      in ucast (p2 - buffer))"

text \<open>
  The target written by \<open>load_integrity_mapping_table\<close>. \<open>fs_size\<close> is the \<open>int\<close>
  parameter of the loader.
\<close>

definition integrity_extra_params :: "string option \<Rightarrow> string option \<Rightarrow> bool \<Rightarrow> string" where
  "integrity_extra_params meta_blk_name integrity_key_ascii stacked =
     (if stacked then ''1 meta_device:'' @ fmt_s meta_blk_name
      else ''3 meta_device:'' @ fmt_s meta_blk_name @ '' internal_hash:'' @ INTEGRITY_TYPE
           @ '':'' @ fmt_s integrity_key_ascii @ '' allow_discards'')"

definition integrity_mapping_target ::
  "64 word \<Rightarrow> string option \<Rightarrow> string option \<Rightarrow> string option \<Rightarrow> 32 word \<Rightarrow> bool \<Rightarrow> dm_target"
where
  "integrity_mapping_target buffer real_blk_name meta_blk_name integrity_key_ascii fs_size stacked =
     (let extra_params = integrity_extra_params meta_blk_name integrity_key_ascii stacked;
          integrity_params =
            snprintf (DM_INTEGRITY_BUF_SIZE - sizeof_dm_ioctl - sizeof_dm_target_spec)
              (fmt_s real_blk_name @ '' 0 '' @ fmt_d INTEGRITY_TAG_SIZE @ '' J '' @ extra_params)
      in \<lparr> tgt_sector_start = 0,
           tgt_length = scast fs_size,
           tgt_status = 0,
           tgt_next = next_target_offset buffer integrity_params,
           tgt_target_type = ''integrity'',
           tgt_params = integrity_params \<rparr>)"

text \<open>The target written by \<open>load_crypto_mapping_table\<close>.\<close>

definition crypto_extra_params :: "bool \<Rightarrow> string" where
  "crypto_extra_params integrity =
     (if integrity then ''1 integrity:'' @ fmt_d INTEGRITY_TAG_SIZE @ '':aead''
      else ''1 allow_discards'')"

definition crypto_mapping_target ::
  "64 word \<Rightarrow> string option \<Rightarrow> string option \<Rightarrow> 32 word \<Rightarrow> bool \<Rightarrow> dm_target"
where
  "crypto_mapping_target buffer real_blk_name master_key_ascii fs_size integrity =
     (let extra_params = crypto_extra_params integrity;
          crypto_type = (if integrity then CRYPTO_TYPE_AUTHENC else CRYPTO_TYPE);
          crypt_params =
            snprintf (DM_CRYPT_BUF_SIZE - sizeof_dm_ioctl - sizeof_dm_target_spec)
              (crypto_type @ '' '' @ fmt_s master_key_ascii @ '' 0 '' @ fmt_s real_blk_name
               @ '' 0 '' @ extra_params)
      in \<lparr> tgt_sector_start = 0,
           tgt_length = scast fs_size,
           tgt_status = 0,
           tgt_next = next_target_offset buffer crypt_params,
           tgt_target_type = ''crypt'',
           tgt_params = crypt_params \<rparr>)"

section \<open>The environment: kernel, devices and injected failures\<close>

datatype errno = ENOENT | EIO | ENXIO | ENOMEM | EFAULT | EBUSY | EEXIST | EINVAL

text \<open>The values of \<open>errno\<close> on Linux; all are positive.\<close>

fun errno_val :: "errno \<Rightarrow> int" where
  "errno_val ENOENT = 2"
| "errno_val EIO = 5"
| "errno_val ENXIO = 6"
| "errno_val ENOMEM = 12"
| "errno_val EFAULT = 14"
| "errno_val EBUSY = 16"
| "errno_val EEXIST = 17"
| "errno_val EINVAL = 22"

datatype open_flags = O_RDONLY | O_WRONLY | O_RDWR | O_WRONLY_DIRECT

text \<open>
  The calls into the kernel, the allocator and the helper library that the modelled
  functions make and whose outcome they inspect or whose effect matters. An open file
  is named by the path it was opened from. \<open>nanosleep\<close>, \<open>close\<close> and \<open>lseek\<close>
  are left out: the code ignores their results.

  Modelled from the spec: \<open>dm_ioctl\<close> is defined in \<open>dm.c\<close>, which is not among the
  sources; by the spec an ioctl that returns non-zero is a kernel error with its
  \<open>errno\<close>, and removing a target that does not exist fails with the no-such-device
  condition. So a device-mapper request is a call that succeeds (0) or fails (\<open>-1\<close>, with
  \<open>errno\<close> set).
\<close>

datatype call =
    Open "string option" open_flags
  | Read "string option" nat nat
  | DM_DEV_CREATE string
  | DM_TABLE_LOAD string dm_target
  | DM_DEV_SUSPEND string
  | DM_DEV_STATUS string
  | DM_DEV_REMOVE string
  | Mkdir string
  | Mknod string
  | Unlink string
  | Calloc nat
  | FdWrite string nat
  | Write string nat
  | Fsync string
  | Mount string string "string option" "64 word"
  | Umount string
  | DirMkdirP string
  | FileTouch string

datatype level = ERROR | WARN

text \<open>What happened, in order: every call with its outcome (\<open>None\<close> is success), and
  every message logged at level ERROR or WARN.\<close>

datatype event = Sys call "errno option" | Log level string

record blkdev =
  bd_size64 :: "64 word"
  bd_sector_size :: int
  bd_data :: string

text \<open>
  The state outside the program: the mapped devices the device-mapper knows by name,
  the device nodes, the backing block devices (size in bytes, logical sector size,
  leading bytes), the mount table (mount point to read-only flag), the address the
  allocator hands out for an ioctl buffer, and the trace. \<open>fault\<close> injects failures: it
  sees the call and the number of events so far, so a call may fail at one attempt and
  succeed at the next.
\<close>

record world =
  dm_devs :: "string set"
  nodes :: "string set"
  blkdevs :: "string \<Rightarrow> blkdev option"
  mounts :: "string \<Rightarrow> bool option"
  heap :: "64 word"
  fault :: "call \<Rightarrow> nat \<Rightarrow> errno option"
  trace :: "event list"

definition MS_RDONLY :: "64 word" where
  "MS_RDONLY = 1"

definition MS_REMOUNT :: "64 word" where
  "MS_REMOUNT = 32"

definition MS_BIND :: "64 word" where
  "MS_BIND = 4096"

text \<open>
  What a call does when no failure is injected. A device-mapper ioctl on a name that
  is not mapped fails with \<open>ENXIO\<close>; creating a name twice fails with \<open>EBUSY\<close>. A bind
  mount ignores \<open>MS_RDONLY\<close> (the mount stays writable until it is remounted), as the
  comments in \<open>c_vol.c\<close> say.
\<close>

definition kernel :: "call \<Rightarrow> world \<Rightarrow> errno option \<times> world" where
  "kernel c w =
     (case c of
        Open p fl \<Rightarrow>
          (case p of
             None \<Rightarrow> (Some EFAULT, w)
           | Some s \<Rightarrow>
               if s = DM_CONTROL \<or> s \<in> nodes w \<or> blkdevs w s \<noteq> None then (None, w)
               else (Some ENOENT, w))
      | Read p off n \<Rightarrow> (None, w)
      | DM_DEV_CREATE n \<Rightarrow>
          if n \<in> dm_devs w then (Some EBUSY, w)
          else (None, w\<lparr>dm_devs := insert n (dm_devs w)\<rparr>)
      | DM_TABLE_LOAD n t \<Rightarrow> if n \<in> dm_devs w then (None, w) else (Some ENXIO, w)
      | DM_DEV_SUSPEND n \<Rightarrow> if n \<in> dm_devs w then (None, w) else (Some ENXIO, w)
      | DM_DEV_STATUS n \<Rightarrow> if n \<in> dm_devs w then (None, w) else (Some ENXIO, w)
      | DM_DEV_REMOVE n \<Rightarrow>
          if n \<in> dm_devs w then (None, w\<lparr>dm_devs := dm_devs w - {n}\<rparr>)
          else (Some ENXIO, w)
      | Mkdir p \<Rightarrow> (None, w)
      | Mknod p \<Rightarrow>
          if p \<in> nodes w then (Some EEXIST, w) else (None, w\<lparr>nodes := insert p (nodes w)\<rparr>)
      | Unlink p \<Rightarrow>
          if p \<in> nodes w then (None, w\<lparr>nodes := nodes w - {p}\<rparr>) else (Some ENOENT, w)
      | Calloc n \<Rightarrow> (None, w)
      | FdWrite p n \<Rightarrow> (None, w)
      | Write p n \<Rightarrow> (None, w)
      | Fsync p \<Rightarrow> (None, w)
      | Mount src dst t fl \<Rightarrow>
          if fl AND MS_REMOUNT \<noteq> 0 then
            (if mounts w dst = None then (Some EINVAL, w)
             else (None, w\<lparr>mounts := (mounts w)(dst \<mapsto> fl AND MS_RDONLY \<noteq> 0)\<rparr>))
          else if fl AND MS_BIND \<noteq> 0 then (None, w\<lparr>mounts := (mounts w)(dst \<mapsto> False)\<rparr>)
          else (None, w\<lparr>mounts := (mounts w)(dst \<mapsto> fl AND MS_RDONLY \<noteq> 0)\<rparr>)
      | Umount dst \<Rightarrow>
          if mounts w dst = None then (Some EINVAL, w)
          else (None, w\<lparr>mounts := (mounts w)(dst := None)\<rparr>)
      | DirMkdirP p \<Rightarrow> (None, w)
      | FileTouch p \<Rightarrow> (None, w))"

definition syscall :: "call \<Rightarrow> world \<Rightarrow> errno option \<times> world" where
  "syscall c w =
     (case fault w c (length (trace w)) of
        Some e \<Rightarrow> (Some e, w\<lparr>trace := trace w @ [Sys c (Some e)]\<rparr>)
      | None \<Rightarrow>
          (case kernel c w of (r, w1) \<Rightarrow> (r, w1\<lparr>trace := trace w @ [Sys c r]\<rparr>)))"

definition logf :: "level \<Rightarrow> string \<Rightarrow> world \<Rightarrow> world" where
  "logf l m w = w\<lparr>trace := trace w @ [Log l m]\<rparr>"

text \<open>
  \<open>read(fd, buf, n)\<close> at offset \<open>off\<close>: the bytes that arrive. A failed read leaves
  the buffer as it was and is seen by the caller as a count different from \<open>n\<close>, like a
  short read.
\<close>

definition sys_read :: "string option \<Rightarrow> nat \<Rightarrow> nat \<Rightarrow> world \<Rightarrow> string \<times> world" where
  "sys_read p off n w =
     (case syscall (Read p off n) w of
        (Some e, w1) \<Rightarrow> ([], w1)
      | (None, w1) \<Rightarrow>
          (case p of
             None \<Rightarrow> ([], w1)
           | Some s \<Rightarrow>
               (case blkdevs w1 s of
                  None \<Rightarrow> ([], w1)
                | Some d \<Rightarrow> (take n (drop off (bd_data d)), w1))))"

text \<open>
  Modelled from the spec: \<open>dm_get_blkdev_sector_size\<close> and \<open>dm_get_blkdev_size64\<close>
  are defined in \<open>dm.c\<close>, which is not among the sources; the spec describes them as
  returning the sector size and the size of a backing device. A device that is not
  known yields 0.
\<close>

definition dm_get_blkdev_sector_size :: "string \<Rightarrow> world \<Rightarrow> int" where
  "dm_get_blkdev_sector_size p w = (case blkdevs w p of None \<Rightarrow> 0 | Some d \<Rightarrow> bd_sector_size d)"

definition dm_get_blkdev_size64 :: "string \<Rightarrow> world \<Rightarrow> 64 word" where
  "dm_get_blkdev_size64 p w = (case blkdevs w p of None \<Rightarrow> 0 | Some d \<Rightarrow> bd_size64 d)"

text \<open>
  Modelled from the spec: \<open>fd_write\<close> is defined in \<open>fd.c\<close>, which is not among the
  sources; the spec has the zeros written for the full payload, so a call writes the
  whole buffer and returns its length, or fails with a negative value.
\<close>

definition fd_write :: "string \<Rightarrow> nat \<Rightarrow> world \<Rightarrow> int \<times> world" where
  "fd_write p n w =
     (case syscall (FdWrite p n) w of
        (Some e, w1) \<Rightarrow> (- 1, w1)
      | (None, w1) \<Rightarrow> (int n, w1))"

section \<open>\<open>cryptfs.c\<close>: building and removing mapped devices\<close>

text \<open>
  The retry loop that \<open>cryptfs.c\<close> writes four times (creating and loading, for both
  kinds of device): \<open>for (counter = 0; counter < TABLE_LOAD_RETRIES; counter++)\<close>,
  leaving at the first ioctl that succeeds. The result is the final value of the counter.
\<close>

function dm_ioctl_retry :: "call \<Rightarrow> nat \<Rightarrow> world \<Rightarrow> nat \<times> world" where
  "dm_ioctl_retry c counter w =
     (if counter < TABLE_LOAD_RETRIES then
        (case syscall c w of
           (None, w1) \<Rightarrow> (counter, w1)
         | (Some e, w1) \<Rightarrow> dm_ioctl_retry c (counter + 1) w1)
      else (counter, w))"
  by pat_completeness auto
termination
  by (relation "measure (\<lambda>(c, counter, w). TABLE_LOAD_RETRIES - counter)") auto

declare dm_ioctl_retry.simps [simp del]

text \<open>The descriptor of the control device, which every function below passes on to
  \<open>dm_ioctl\<close>, is not a parameter of the model.\<close>

definition load_integrity_mapping_table ::
  "string option \<Rightarrow> string option \<Rightarrow> string option \<Rightarrow> string \<Rightarrow> 32 word \<Rightarrow> bool \<Rightarrow> world
   \<Rightarrow> int \<times> world"
where
  "load_integrity_mapping_table real_blk_name meta_blk_name integrity_key_ascii name fs_size stacked w =
     (if \<not> stacked \<and> integrity_key_ascii = None then
        (- 1, logf ERROR ''!stacked && !integrity_key_ascii'' w)
      else
        (case dm_ioctl_retry
                (DM_TABLE_LOAD name
                   (integrity_mapping_target (heap w) real_blk_name meta_blk_name
                      integrity_key_ascii fs_size stacked)) 0 w of
           (mapping_counter, w1) \<Rightarrow>
             if mapping_counter \<ge> TABLE_LOAD_RETRIES then
               (- 1, logf ERROR ''Loading integrity mapping table did not work'' w1)
             else (int mapping_counter + 1, w1)))"

definition load_crypto_mapping_table ::
  "string option \<Rightarrow> string option \<Rightarrow> string \<Rightarrow> 32 word \<Rightarrow> bool \<Rightarrow> world \<Rightarrow> int \<times> world"
where
  "load_crypto_mapping_table real_blk_name master_key_ascii name fs_size integrity w =
     (case dm_ioctl_retry
             (DM_TABLE_LOAD name
                (crypto_mapping_target (heap w) real_blk_name master_key_ascii fs_size integrity))
             0 w of
        (i, w1) \<Rightarrow>
          if i = TABLE_LOAD_RETRIES then
            (- 1, logf ERROR ''Loading crypto mapping table did not work'' w1)
          else (int i + 1, w1))"

definition create_device_node :: "string \<Rightarrow> world \<Rightarrow> string option \<times> world" where
  "create_device_node name w =
     (case syscall (Open (Some DM_CONTROL) O_RDWR) w of
        (Some e, w1) \<Rightarrow> (None, logf ERROR ''Error opening devmapper'' w1)
      | (None, w1) \<Rightarrow>
          (case syscall (DM_DEV_STATUS name) w1 of
             (Some e, w2) \<Rightarrow>
               (None, if e \<noteq> ENXIO then logf ERROR ''DM_DEV_STATUS ioctl failed for lookup'' w2
                      else w2)
           | (None, w2) \<Rightarrow>
               (case syscall (Mkdir ''/dev/block'') w2 of
                  (r, w3) \<Rightarrow>
                    if r \<noteq> None \<and> r \<noteq> Some EEXIST then
                      (None, logf ERROR ''Could not mkdir /dev/block'' w3)
                    else
                      (case syscall (Mknod (cryptfs_get_device_path_new name)) w3 of
                         (r', w4) \<Rightarrow>
                           if r' \<noteq> None \<and> r' \<noteq> Some EEXIST then
                             (None, logf ERROR ''Cannot mknod device'' w4)
                           else (Some (cryptfs_get_device_path_new name), w4)))))"

definition create_integrity_blk_dev ::
  "string option \<Rightarrow> string option \<Rightarrow> string option \<Rightarrow> string \<Rightarrow> 64 word \<Rightarrow> bool \<Rightarrow> world
   \<Rightarrow> string option \<times> world"
where
  "create_integrity_blk_dev real_blk_name meta_blk_name key name fs_size stacked w =
     (case syscall (Open (Some DM_CONTROL) O_RDWR) w of
        (Some e, w1) \<Rightarrow>
          (None, logf ERROR ''Failed integrity block creation''
                   (logf ERROR ''Cannot open device-mapper'' w1))
      | (None, w1) \<Rightarrow>
          (case dm_ioctl_retry (DM_DEV_CREATE name) 0 w1 of
             (create_counter, w2) \<Rightarrow>
               if create_counter \<ge> TABLE_LOAD_RETRIES then
                 (None, logf ERROR ''Failed integrity block creation''
                          (logf ERROR ''Failed to create block device'' w2))
               else
                 (case load_integrity_mapping_table real_blk_name meta_blk_name key name
                         (ucast fs_size) stacked w2 of
                    (load_count, w3) \<Rightarrow>
                      if load_count < 0 then
                        (None, logf ERROR ''Failed integrity block creation''
                                 (logf ERROR ''Error while loading mapping table'' w3))
                      else
                        (case syscall (DM_DEV_SUSPEND name) w3 of
                           (Some e, w4) \<Rightarrow>
                             (None, logf ERROR ''Failed integrity block creation''
                                      (logf ERROR ''Cannot resume the dm-integrity device'' w4))
                         | (None, w4) \<Rightarrow>
                             (case create_device_node name w4 of
                                (None, w5) \<Rightarrow>
                                  (None, logf ERROR ''Failed integrity block creation''
                                           (logf ERROR ''Could not create device node (integrity)'' w5))
                              | (Some integrity_dev, w5) \<Rightarrow> (Some integrity_dev, w5))))))"

definition create_crypto_blk_dev ::
  "string option \<Rightarrow> string option \<Rightarrow> string \<Rightarrow> 64 word \<Rightarrow> bool \<Rightarrow> world
   \<Rightarrow> string option \<times> world"
where
  "create_crypto_blk_dev real_blk_name master_key name fs_size integrity w =
     (case syscall (Open (Some DM_CONTROL) O_RDWR) w of
        (Some e, w1) \<Rightarrow>
          (None, logf ERROR ''Failed crypto block creation''
                   (logf ERROR ''Cannot open device-mapper'' w1))
      | (None, w1) \<Rightarrow>
          (case dm_ioctl_retry (DM_DEV_CREATE name) 0 w1 of
             (i, w2) \<Rightarrow>
               if i = TABLE_LOAD_RETRIES then
                 (None, logf ERROR ''Failed crypto block creation''
                          (logf ERROR ''Cannot create dm-crypt device'' w2))
               else
                 (case load_crypto_mapping_table real_blk_name master_key name
                         (ucast fs_size) integrity w2 of
                    (load_count, w3) \<Rightarrow>
                      if load_count < 0 then
                        (None, logf ERROR ''Failed crypto block creation''
                                 (logf ERROR ''Cannot load dm-crypt mapping table'' w3))
                      else
                        (case syscall (DM_DEV_SUSPEND name) w3 of
                           (Some e, w4) \<Rightarrow>
                             (None, logf ERROR ''Failed crypto block creation''
                                      (logf ERROR ''Cannot resume the dm-crypt device'' w4))
                         | (None, w4) \<Rightarrow>
                             (case create_device_node name w4 of
                                (None, w5) \<Rightarrow>
                                  (None, logf ERROR ''Failed crypto block creation''
                                           (logf ERROR ''Could not create device node (crypt)'' w5))
                              | (Some crypto_blkdev, w5) \<Rightarrow> (Some crypto_blkdev, w5))))))"

text \<open>Both removers return \<open>-1\<close> when the control device cannot be opened, the value
  of \<open>errno\<close> when the ioctl fails, and 0 otherwise.\<close>

definition delete_integrity_blk_dev :: "string \<Rightarrow> world \<Rightarrow> int \<times> world" where
  "delete_integrity_blk_dev name w =
     (case syscall (Open (Some DM_CONTROL) O_RDWR) w of
        (Some e, w1) \<Rightarrow> (- 1, logf ERROR ''Cannot open device-mapper'' w1)
      | (None, w1) \<Rightarrow>
          (case syscall (DM_DEV_REMOVE name) w1 of
             (Some e, w2) \<Rightarrow>
               (errno_val e,
                if e \<noteq> ENXIO then logf ERROR ''Cannot remove dm-integrity device'' w2 else w2)
           | (None, w2) \<Rightarrow>
               (case syscall (Unlink (cryptfs_get_device_path_new name)) w2 of
                  (r, w3) \<Rightarrow> (0, w3))))"

text \<open>A descriptor that is not negative, passed by the caller, is taken to be open on
  the control device.\<close>

definition delete_crypto_blk_dev :: "int \<Rightarrow> string \<Rightarrow> world \<Rightarrow> int \<times> world" where
  "delete_crypto_blk_dev fd name w =
     (case (if fd = - 1 then
              (case syscall (Open (Some DM_CONTROL) O_RDWR) w of
                 (Some e, w1) \<Rightarrow> (- 1, w1)
               | (None, w1) \<Rightarrow> (3, w1))
            else (fd, w)) of
        (fd', w1) \<Rightarrow>
          if fd' < 0 then (- 1, logf ERROR ''Cannot open device-mapper'' w1)
          else
            (case syscall (DM_DEV_REMOVE name) w1 of
               (Some e, w2) \<Rightarrow>
                 (errno_val e,
                  if e \<noteq> ENXIO then logf ERROR ''Cannot remove dm-crypt device'' w2 else w2)
             | (None, w2) \<Rightarrow>
                 (case syscall (Unlink (cryptfs_get_device_path_new name)) w2 of
                    (r, w3) \<Rightarrow> (0, w3))))"

section \<open>\<open>cryptfs.c\<close>: probing the integrity superblock\<close>

text \<open>An \<open>unsigned long\<close> read from bytes in memory order, on a little-endian machine
  with 64-bit \<open>long\<close>. Fewer than eight bytes leave the upper bytes zero.\<close>

definition le64 :: "string \<Rightarrow> 64 word" where
  "le64 bs = foldr (\<lambda>b v. of_nat (of_char b) + 256 * v) bs 0"

text \<open>
  \<open>strcmp(magic, "integrt")\<close> is 0 exactly when the eight bytes read are the seven
  letters and a NUL: the comparison ends at the first difference or at the eighth byte.
\<close>

definition get_provided_data_sectors :: "string option \<Rightarrow> world \<Rightarrow> 64 word \<times> world" where
  "get_provided_data_sectors real_blk_name w =
     (case syscall (Open real_blk_name O_RDONLY) w of
        (Some e, w1) \<Rightarrow> (0, logf ERROR ''Cannot open volume'' w1)
      | (None, w1) \<Rightarrow>
          (case sys_read real_blk_name 0 8 w1 of
             (magic, w2) \<Rightarrow>
               if length magic \<noteq> 8 then
                 (0, logf ERROR ''Cannot read superblock type from volume'' w2)
               else if magic \<noteq> ''integrt'' @ [NUL] then (1, w2)
               else
                 (case sys_read real_blk_name 16 8 w2 of
                    (bs, w3) \<Rightarrow>
                      if length bs \<noteq> 8 \<or> le64 bs = 0 then
                        (le64 bs, logf ERROR ''Cannot read provided_data_sectors from volume'' w3)
                      else (le64 bs, w3))))"

section \<open>\<open>cryptfs.c\<close>: writing zeros\<close>

text \<open>The loop of \<open>cryptfs_write_zeros\<close>; \<open>True\<close> when it ran to its end. \<open>written\<close>
  never exceeds \<open>size\<close>, so the subtraction does not wrap.\<close>

function write_zeros_loop :: "string \<Rightarrow> nat \<Rightarrow> nat \<Rightarrow> world \<Rightarrow> bool \<times> world" where
  "write_zeros_loop dev sz written w =
     (if 0 < sz - written then
        (case syscall (FdWrite dev (min (sz - written) ZERO_BUF_SIZE)) w of
           (Some e, w1) \<Rightarrow> (False, logf ERROR ''Failed to write'' w1)
         | (None, w1) \<Rightarrow>
             write_zeros_loop dev sz (written + min (sz - written) ZERO_BUF_SIZE) w1)
      else (True, w))"
  by pat_completeness auto
termination
  by (relation "measure (\<lambda>(dev, sz, written, w). sz - written)")
     (auto simp: ZERO_BUF_SIZE_def)

declare write_zeros_loop.simps [simp del]

definition cryptfs_write_zeros :: "string option \<Rightarrow> nat \<Rightarrow> world \<Rightarrow> int \<times> world" where
  "cryptfs_write_zeros crypto_blkdev sz w =
     (case crypto_blkdev of
        None \<Rightarrow> (- 1, w)
      | Some dev \<Rightarrow>
          (case syscall (Calloc ZERO_BUF_SIZE) w of
             (Some e, w1) \<Rightarrow> (- 1, logf ERROR ''Failed to allocate zero buffer'' w1)
           | (None, w1) \<Rightarrow>
               (case syscall (Open (Some dev) O_WRONLY) w1 of
                  (Some e, w2) \<Rightarrow> (- 1, logf ERROR ''Cannot open volume'' w2)
                | (None, w2) \<Rightarrow>
                    (case write_zeros_loop dev sz 0 w2 of
                       (False, w3) \<Rightarrow> (- 1, w3)
                     | (True, w3) \<Rightarrow>
                         (case syscall (Fsync dev) w3 of
                            (Some e, w4) \<Rightarrow> (- 1, logf ERROR ''Failed to sync fd'' w4)
                          | (None, w4) \<Rightarrow> (0, w4))))))"

text \<open>The loop of the fallback in \<open>cryptfs_setup_volume_new\<close>:
  \<open>for (i = 0; i < fs_size / 8; ++i)\<close>, one block of 4096 bytes each time; a write that
  returns less than the block ends it with \<open>False\<close>.\<close>

function zero_blocks_loop :: "string \<Rightarrow> nat \<Rightarrow> nat \<Rightarrow> world \<Rightarrow> bool \<times> world" where
  "zero_blocks_loop dev n i w =
     (if i < n then
        (case syscall (Write dev DM_INTEGRITY_BUF_SIZE) w of
           (Some e, w1) \<Rightarrow> (False, logf ERROR ''Could not write empty block'' w1)
         | (None, w1) \<Rightarrow> zero_blocks_loop dev n (i + 1) w1)
      else (True, w))"
  by pat_completeness auto
termination
  by (relation "measure (\<lambda>(dev, n, i, w). n - i)") auto

declare zero_blocks_loop.simps [simp del]

section \<open>\<open>cryptfs.c\<close>: the orchestrator\<close>

text \<open>
  Modelled from the spec: \<open>cryptfs_mode_t\<close> is declared in \<open>cryptfs.h\<close>, which is
  not among the sources; these are the enumerators \<open>cryptfs.c\<close> uses and the five modes
  of the spec.
\<close>

datatype cryptfs_mode =
    CRYPTFS_MODE_NOT_IMPLEMENTED
  | CRYPTFS_MODE_AUTHENC
  | CRYPTFS_MODE_ENCRYPT_ONLY
  | CRYPTFS_MODE_INTEGRITY_ENCRYPT
  | CRYPTFS_MODE_INTEGRITY_ONLY

text \<open>The function returns a path or \<open>NULL\<close>; the model names the check that made it
  return \<open>NULL\<close>. Every \<open>goto error\<close> is \<open>SetupFailed\<close>.\<close>

datatype setup_error = NullParameter | MissingMetaDevice | InvalidKeyLength | SetupFailed

text \<open>The locals that the \<open>switch\<close> on the mode sets.\<close>

record mode_vars =
  mv_crypto_key_len :: nat
  mv_integrity_key_len :: nat
  mv_encrypt :: bool
  mv_integrity :: bool
  mv_stacked :: bool

text \<open>The \<open>switch\<close> (lines 650-697): \<open>Inl\<close> is a \<open>return\<close> inside it, \<open>Inr\<close> falls
  out of it with the locals set.\<close>

definition setup_mode_switch ::
  "cryptfs_mode \<Rightarrow> string \<Rightarrow> string \<Rightarrow> string option \<Rightarrow> world
   \<Rightarrow> ((setup_error + string) + mode_vars) \<times> world"
where
  "setup_mode_switch mode real_blkdev key meta_blkdev w =
     (case mode of
        CRYPTFS_MODE_NOT_IMPLEMENTED \<Rightarrow>
          (Inl (Inr real_blkdev), logf WARN ''cryptfs mode NOT_IMPLEMENTED'' w)
      | CRYPTFS_MODE_AUTHENC \<Rightarrow>
          if meta_blkdev = None then
            (Inl (Inl MissingMetaDevice), logf ERROR ''meta_blkdev is NULL'' w)
          else
            (Inr \<lparr> mv_crypto_key_len = length key, mv_integrity_key_len = 0,
                   mv_encrypt = True, mv_integrity = True, mv_stacked = True \<rparr>,
             if length key \<noteq> AUTHENC_HEXKEY_LEN then
               logf WARN ''strlen(key) != AUTHENC_HEXKEY_LEN'' w
             else w)
      | CRYPTFS_MODE_ENCRYPT_ONLY \<Rightarrow>
          (Inr \<lparr> mv_crypto_key_len = length key, mv_integrity_key_len = 0,
                 mv_encrypt = True, mv_integrity = False, mv_stacked = False \<rparr>,
           if length key \<noteq> CRYPTO_HEXKEY_LEN then
             logf WARN ''strlen(key) != CRYPTO_HEXKEY_LEN'' w
           else w)
      | CRYPTFS_MODE_INTEGRITY_ENCRYPT \<Rightarrow>
          if meta_blkdev = None then
            (Inl (Inl MissingMetaDevice), logf ERROR ''meta_blkdev is NULL'' w)
          else if length key \<noteq> CRYPTO_HEXKEY_LEN + INTEGRITY_HEXKEY_LEN then
            (Inl (Inl InvalidKeyLength), w)
          else
            (Inr \<lparr> mv_crypto_key_len = CRYPTO_HEXKEY_LEN,
                   mv_integrity_key_len = INTEGRITY_HEXKEY_LEN,
                   mv_encrypt = True, mv_integrity = True, mv_stacked = False \<rparr>, w)
      | CRYPTFS_MODE_INTEGRITY_ONLY \<Rightarrow>
          if length key \<noteq> INTEGRITY_HEXKEY_LEN then (Inl (Inl InvalidKeyLength), w)
          else
            (Inr \<lparr> mv_crypto_key_len = 0, mv_integrity_key_len = INTEGRITY_HEXKEY_LEN,
                   mv_encrypt = False, mv_integrity = True, mv_stacked = False \<rparr>, w))"

text \<open>Lines 713-732: the size of the volume in sectors; \<open>None\<close> is \<open>goto error\<close>.\<close>

definition setup_probe_size :: "string \<Rightarrow> world \<Rightarrow> 64 word option \<times> world" where
  "setup_probe_size real_blkdev w =
     (case syscall (Open (Some real_blkdev) O_RDONLY) w of
        (Some e, w1) \<Rightarrow> (None, logf ERROR ''Cannot open volume'' w1)
      | (None, w1) \<Rightarrow>
          (let sector_size = dm_get_blkdev_sector_size real_blkdev w1 in
           if \<not> sector_size > 0 then
             (None, logf ERROR ''dm_get_blkdev_sector_size returned'' w1)
           else
             (let fs_size = dm_get_blkdev_size64 real_blkdev w1 div word_of_int sector_size in
              if fs_size = 0 then (None, logf ERROR ''Cannot get size of volume'' w1)
              else (Some fs_size, w1))))"

text \<open>Lines 734-747: the values of \<open>initial_format\<close> and \<open>integrity_blkdev\<close> after
  the block; \<open>goto error\<close> is taken when integrity is wanted and no device came back.\<close>

definition setup_integrity_layer ::
  "string \<Rightarrow> string \<Rightarrow> string option \<Rightarrow> string option \<Rightarrow> 64 word \<Rightarrow> mode_vars \<Rightarrow> world
   \<Rightarrow> bool \<times> string option \<times> world"
where
  "setup_integrity_layer label real_blkdev meta_blkdev integrity_key fs_size mv w =
     (if mv_integrity mv then
        (case get_provided_data_sectors meta_blkdev w of
           (provided, w1) \<Rightarrow>
             (case create_integrity_blk_dev (Some real_blkdev) meta_blkdev integrity_key
                     (label @ ''-integrity'') fs_size (mv_stacked mv) w1 of
                (integrity_blkdev, w2) \<Rightarrow>
                  (provided \<noteq> fs_size, integrity_blkdev,
                   if integrity_blkdev = None then
                     logf ERROR ''create_integrity_blk_dev failed!'' w2
                   else w2)))
      else (False, None, w))"

text \<open>Lines 749-758: the value of \<open>crypto_blkdev\<close> after the block.\<close>

definition setup_crypt_layer ::
  "string \<Rightarrow> string \<Rightarrow> string option \<Rightarrow> string option \<Rightarrow> 64 word \<Rightarrow> mode_vars
   \<Rightarrow> string option \<Rightarrow> world \<Rightarrow> string option \<times> world"
where
  "setup_crypt_layer label real_blkdev meta_blkdev crypto_key fs_size mv integrity_blkdev w =
     (if mv_encrypt mv then
        (case create_crypto_blk_dev
                (if meta_blkdev \<noteq> None then integrity_blkdev else Some real_blkdev)
                crypto_key label fs_size (mv_stacked mv) w of
           (crypto_blkdev, w1) \<Rightarrow>
             (crypto_blkdev,
              if crypto_blkdev = None then logf ERROR ''Could not create crypto block device'' w1
              else w1))
      else (integrity_blkdev, w))"

text \<open>Lines 760-795, taken when \<open>initial_format\<close> is set; \<open>False\<close> is \<open>goto error\<close>.\<close>

definition setup_initial_format :: "string \<Rightarrow> 64 word \<Rightarrow> world \<Rightarrow> bool \<times> world" where
  "setup_initial_format crypto_blkdev fs_size w =
     (case cryptfs_write_zeros (Some crypto_blkdev) (unat (fs_size * 512)) w of
        (r, w1) \<Rightarrow>
          if r \<noteq> 0 then
            (case syscall (Open (Some crypto_blkdev) O_WRONLY_DIRECT)
                    (logf WARN ''Failed to format volume using calloc, falling back'' w1) of
               (Some e, w2) \<Rightarrow> (False, logf ERROR ''Cannot open volume'' w2)
             | (None, w2) \<Rightarrow> zero_blocks_loop crypto_blkdev (unat (fs_size div 8)) 0 w2)
          else (True, w1))"

text \<open>The label \<open>error\<close> (lines 812-832), with the values the two device variables
  have when it is reached. Both removers are called with \<open>label\<close>.\<close>

definition setup_error_exit :: "string \<Rightarrow> string option \<Rightarrow> string option \<Rightarrow> world \<Rightarrow> world" where
  "setup_error_exit label integrity_blkdev crypto_blkdev w =
     (let w1 = (if integrity_blkdev \<noteq> None then snd (delete_integrity_blk_dev label w) else w)
      in if crypto_blkdev \<noteq> None then snd (delete_crypto_blk_dev (- 1) label w1) else w1)"

text \<open>Lines 699-832. Overwriting and freeing the two key copies changes nothing that
  the model observes and is left out.\<close>

definition setup_stack ::
  "string \<Rightarrow> string \<Rightarrow> string \<Rightarrow> string option \<Rightarrow> mode_vars \<Rightarrow> world
   \<Rightarrow> (setup_error + string) \<times> world"
where
  "setup_stack label real_blkdev key meta_blkdev mv w =
     (let crypto_key =
            (if mv_crypto_key_len mv > 0 then Some (take (mv_crypto_key_len mv) key) else None);
          integrity_key =
            (if mv_integrity_key_len mv > 0 then
               Some (take (mv_integrity_key_len mv) (drop (mv_crypto_key_len mv) key))
             else None)
      in
      case setup_probe_size real_blkdev w of
        (None, w1) \<Rightarrow> (Inl SetupFailed, setup_error_exit label None None w1)
      | (Some fs_size, w1) \<Rightarrow>
          (case setup_integrity_layer label real_blkdev meta_blkdev integrity_key fs_size mv w1 of
             (initial_format, integrity_blkdev, w2) \<Rightarrow>
               if mv_integrity mv \<and> integrity_blkdev = None then
                 (Inl SetupFailed, setup_error_exit label None None w2)
               else
                 (case setup_crypt_layer label real_blkdev meta_blkdev crypto_key fs_size mv
                         integrity_blkdev w2 of
                    (None, w3) \<Rightarrow> (Inl SetupFailed, setup_error_exit label integrity_blkdev None w3)
                  | (Some crypto_blkdev, w3) \<Rightarrow>
                      if initial_format then
                        (case setup_initial_format crypto_blkdev fs_size w3 of
                           (False, w4) \<Rightarrow>
                             (Inl SetupFailed,
                              setup_error_exit label integrity_blkdev (Some crypto_blkdev) w4)
                         | (True, w4) \<Rightarrow> (Inr crypto_blkdev, w4))
                      else (Inr crypto_blkdev, w3))))"

definition cryptfs_setup_volume_new ::
  "string option \<Rightarrow> string option \<Rightarrow> string option \<Rightarrow> string option \<Rightarrow> cryptfs_mode \<Rightarrow> world
   \<Rightarrow> (setup_error + string) \<times> world"
where
  "cryptfs_setup_volume_new label real_blkdev key meta_blkdev mode w =
     (case label of
        None \<Rightarrow> (Inl NullParameter, logf ERROR ''label is NULL'' w)
      | Some label' \<Rightarrow>
          (case real_blkdev of
             None \<Rightarrow> (Inl NullParameter, logf ERROR ''real_blkdev is NULL'' w)
           | Some real_blkdev' \<Rightarrow>
               (case key of
                  None \<Rightarrow> (Inl NullParameter, logf ERROR ''key is NULL'' w)
                | Some key' \<Rightarrow>
                    (case setup_mode_switch mode real_blkdev' key' meta_blkdev w of
                       (Inl r, w1) \<Rightarrow> (r, w1)
                     | (Inr mv, w1) \<Rightarrow> setup_stack label' real_blkdev' key' meta_blkdev mv w1))))"

definition cryptfs_delete_blk_dev :: "int \<Rightarrow> string \<Rightarrow> cryptfs_mode \<Rightarrow> world \<Rightarrow> int \<times> world" where
  "cryptfs_delete_blk_dev fd name mode w =
     (case (case mode of
              CRYPTFS_MODE_AUTHENC \<Rightarrow> Some (True, True)
            | CRYPTFS_MODE_INTEGRITY_ENCRYPT \<Rightarrow> Some (True, True)
            | CRYPTFS_MODE_ENCRYPT_ONLY \<Rightarrow> Some (True, False)
            | CRYPTFS_MODE_INTEGRITY_ONLY \<Rightarrow> Some (False, True)
            | CRYPTFS_MODE_NOT_IMPLEMENTED \<Rightarrow> None) of
        None \<Rightarrow> (- 1, logf ERROR ''Unsupported mode.'' w)
      | Some (encrypt, integrity) \<Rightarrow>
          (case (if encrypt then delete_crypto_blk_dev fd name w else (0, w)) of
             (r1, w1) \<Rightarrow>
               if encrypt \<and> r1 < 0 then (- 1, logf ERROR ''Failed to delete crypto dev'' w1)
               else if integrity then
                 (case delete_integrity_blk_dev (name @ ''-integrity'') w1 of
                    (r2, w2) \<Rightarrow>
                      if r2 < 0 then (- 1, logf ERROR ''Failed to delete integrity dev'' w2)
                      else (0, w2))
               else (0, w1)))"

section \<open>\<open>c_vol.c\<close>: bind mounts\<close>





section \<open>\<open>tpm2d_control.c\<close>: the command line\<close>

datatype tpm_code =
    DMCRYPT_SETUP | EXIT | RANDOM_REQ | CLEAR | DMCRYPT_LOCK | CHANGE_OWNER_PWD | DMCRYPT_RESET

datatype fde_key_type = XTS_AES128 | XTS_AES192 | XTS_AES256

text \<open>
  Modelled from the spec: the message \<open>ControllerToTpm\<close> is declared in the generated
  header \<open>tpm2d.pb-c.h\<close>, which is not among the sources; the spec lists the seven
  commands and the three key types. The fields are the ones \<open>main\<close> assigns; a code of
  \<open>None\<close> is the value that the initializer \<open>CONTROLLER_TO_TPM__INIT\<close> left there.
\<close>

record controller_to_tpm =
  msg_code :: "tpm_code option"
  msg_has_dmcrypt_key_type :: bool
  msg_dmcrypt_key_type :: "fde_key_type option"
  msg_dmcrypt_device :: "string option"
  msg_password :: "string option"
  msg_password_new :: "string option"
  msg_has_rand_size :: bool
  msg_rand_size :: int

definition CONTROLLER_TO_TPM__INIT :: controller_to_tpm where
  "CONTROLLER_TO_TPM__INIT =
     \<lparr> msg_code = None, msg_has_dmcrypt_key_type = False, msg_dmcrypt_key_type = None,
       msg_dmcrypt_device = None, msg_password = None, msg_password_new = None,
       msg_has_rand_size = False, msg_rand_size = 0 \<rparr>"

text \<open>
  What the program meets outside: the default socket path (\<open>TPM2D_SOCKET\<close> of
  \<open>tpm2d_shared.h\<close>), whether a file exists (\<open>file_exists\<close>), whether connecting
  (\<open>sock_unix_create_and_connect\<close>) and sending (\<open>protobuf_send_message\<close>) work,
  whether a response arrives (\<open>protobuf_recv_message\<close>), and what \<open>getopt_long\<close>
  makes of the arguments of \<open>dmcrypt_setup\<close> (the options it returns with their
  arguments, and \<open>optind\<close> when it returns \<open>-1\<close>). None of these functions is among
  the sources; each is a call that succeeds or fails.
\<close>

record cli_env =
  TPM2D_SOCKET :: string
  file_exists :: "string \<Rightarrow> bool"
  connect_ok :: "string \<Rightarrow> bool"
  send_ok :: bool
  recv_ok :: bool
  getopt_dmsetup :: "string list \<Rightarrow> (char \<times> string) list \<times> nat"

text \<open>What the program does that can be seen from outside, in order.\<close>

datatype cli_event =
    PrintUsage
  | DumpMessage controller_to_tpm
  | Connect string
  | SendMessage controller_to_tpm
  | RecvMessage
  | DumpResponse

definition tolower :: "char \<Rightarrow> char" where
  "tolower c =
     (case map_of (zip ''ABCDEFGHIJKLMNOPQRSTUVWXYZ'' ''abcdefghijklmnopqrstuvwxyz'') c of
        Some l \<Rightarrow> l
      | None \<Rightarrow> c)"

text \<open>\<open>strcasecmp\<close>: 0 when the strings are equal up to the case of letters. The
  code only compares the result with 0.\<close>

definition strcasecmp :: "string \<Rightarrow> string \<Rightarrow> int" where
  "strcasecmp a b = (if map tolower a = map tolower b then 0 else 1)"

definition digit_val :: "char \<Rightarrow> nat option" where
  "digit_val c = map_of (zip ''0123456789'' [0, 1, 2, 3, 4, 5, 6, 7, 8, 9]) c"

fun atoi_digits :: "int \<Rightarrow> string \<Rightarrow> int" where
  "atoi_digits acc [] = acc"
| "atoi_digits acc (c # cs) =
     (case digit_val c of None \<Rightarrow> acc | Some d \<Rightarrow> atoi_digits (acc * 10 + int d) cs)"

text \<open>\<open>atoi\<close> on text whose value fits an \<open>int\<close>.\<close>

definition atoi :: "string \<Rightarrow> int" where
  "atoi s =
     (case dropWhile (\<lambda>c. c = CHR '' '') s of
        [] \<Rightarrow> 0
      | c # cs \<Rightarrow>
          if c = CHR ''-'' then - atoi_digits 0 cs
          else if c = CHR ''+'' then atoi_digits 0 cs
          else atoi_digits 0 (c # cs))"

definition get_fde_key_type :: "int \<Rightarrow> fde_key_type" where
  "get_fde_key_type len =
     (if len = 32 then XTS_AES128
      else if len = 48 then XTS_AES192
      else if len = 64 then XTS_AES256
      else XTS_AES256)"

text \<open>A run of the program ends with an exit status; the events are what it did
  before. \<open>print_usage\<close> prints and leaves with \<open>exit(-1)\<close>.\<close>

definition print_usage :: "int \<times> cli_event list" where
  "print_usage = (- 1, [PrintUsage])"

text \<open>\<open>send_message\<close>, followed by the \<open>return 0\<close> of \<open>main\<close> when it returns.\<close>

definition send_message :: "cli_env \<Rightarrow> string \<Rightarrow> controller_to_tpm \<Rightarrow> bool \<Rightarrow> int \<times> cli_event list" where
  "send_message env socket_file msg has_response =
     (if \<not> connect_ok env socket_file then (- 3, [DumpMessage msg, Connect socket_file])
      else if \<not> send_ok env then
        (- 4, [DumpMessage msg, Connect socket_file, SendMessage msg])
      else if has_response then
        (if \<not> recv_ok env then
           (- 5, [DumpMessage msg, Connect socket_file, SendMessage msg, RecvMessage])
         else
           (0, [DumpMessage msg, Connect socket_file, SendMessage msg, RecvMessage,
                DumpResponse]))
      else (0, [DumpMessage msg, Connect socket_file, SendMessage msg]))"

text \<open>The first loop of \<open>main\<close> over the options that \<open>getopt_long\<close> returns, each
  with its \<open>optarg\<close>: \<open>None\<close> when an option other than \<open>s\<close> leads to \<open>print_usage\<close>.\<close>

fun global_options :: "string \<Rightarrow> (char \<times> string) list \<Rightarrow> string option" where
  "global_options socket_file [] = Some socket_file"
| "global_options socket_file ((c, optarg) # os) =
     (if c = CHR ''s'' then global_options optarg os else None)"

text \<open>The loop over the options of \<open>dmcrypt_setup\<close>: \<open>None\<close> is \<open>print_usage\<close>.\<close>

fun dmsetup_options :: "controller_to_tpm \<Rightarrow> (char \<times> string) list \<Rightarrow> controller_to_tpm option" where
  "dmsetup_options msg [] = Some msg"
| "dmsetup_options msg ((c, optarg) # os) =
     (if c = CHR ''l'' then
        dmsetup_options
          (msg\<lparr>msg_has_dmcrypt_key_type := True,
               msg_dmcrypt_key_type := Some (get_fde_key_type (atoi optarg))\<rparr>) os
      else None)"

text \<open>\<open>argv[i]\<close> for \<open>i\<close> up to \<open>argc\<close>: the entry at \<open>argc\<close> is the null pointer.\<close>

definition arg_at :: "string list \<Rightarrow> nat \<Rightarrow> string option" where
  "arg_at xs i = (if i < length xs then Some (xs ! i) else None)"

text \<open>
  The chain of comparisons in \<open>main\<close>, from the command (\<open>argv[optind]\<close>) and the
  arguments after it: the message and \<open>has_response\<close> with which the label
  \<open>send_message\<close> is reached, or \<open>None\<close> when \<open>print_usage\<close> ends the program.
\<close>

definition build_message ::
  "cli_env \<Rightarrow> string \<Rightarrow> string list \<Rightarrow> (controller_to_tpm \<times> bool) option"
where
  "build_message env command rest =
     (let msg = CONTROLLER_TO_TPM__INIT in
      if strcasecmp command ''dmcrypt_setup'' = 0 then
        (if rest = [] then None
         else
           (case getopt_dmsetup env (command # rest) of
              (opts, k) \<Rightarrow>
                (case dmsetup_options (msg\<lparr>msg_code := Some DMCRYPT_SETUP\<rparr>) opts of
                   None \<Rightarrow> None
                 | Some msg1 \<Rightarrow>
                     Some (msg1\<lparr>msg_dmcrypt_device := arg_at (command # rest) k,
                                msg_password :=
                                  (if k + 1 < length (command # rest)
                                   then arg_at (command # rest) (k + 1)
                                   else msg_password msg1)\<rparr>, True))))
      else if strcasecmp command ''exit'' = 0 then Some (msg\<lparr>msg_code := Some EXIT\<rparr>, False)
      else if strcasecmp command ''getrandom'' = 0 then
        (case rest of
           [] \<Rightarrow> None
         | a # as \<Rightarrow>
             Some (msg\<lparr>msg_code := Some RANDOM_REQ, msg_has_rand_size := True,
                       msg_rand_size := atoi a\<rparr>, True))
      else if strcasecmp command ''clear'' = 0 then
        Some (msg\<lparr>msg_code := Some CLEAR, msg_password := arg_at rest 0\<rparr>, True)
      else if strcasecmp command ''dmcrypt_lock'' = 0 then
        Some (msg\<lparr>msg_code := Some DMCRYPT_LOCK, msg_password := arg_at rest 0\<rparr>, True)
      else if strcasecmp command ''change_owner'' = 0 then
        Some (msg\<lparr>msg_code := Some CHANGE_OWNER_PWD, msg_password := arg_at rest 0,
                  msg_password_new := arg_at rest 1\<rparr>, True)
      else if strcasecmp command ''dmcrypt_reset'' = 0 then
        Some (msg\<lparr>msg_code := Some DMCRYPT_RESET, msg_password := arg_at rest 0\<rparr>, True)
      else Some (msg, False))"

text \<open>
  \<open>main\<close>, given the options of the first \<open>getopt_long\<close> loop and the arguments from
  \<open>argv[optind]\<close> on.
\<close>

definition main :: "cli_env \<Rightarrow> (char \<times> string) list \<Rightarrow> string list \<Rightarrow> int \<times> cli_event list" where
  "main env opts args =
     (case global_options (TPM2D_SOCKET env) opts of
        None \<Rightarrow> print_usage
      | Some socket_file \<Rightarrow>
          if \<not> file_exists env socket_file then (- 2, [])
          else
            (case args of
               [] \<Rightarrow> print_usage
             | command # rest \<Rightarrow>
                 (case build_message env command rest of
                    None \<Rightarrow> print_usage
                  | Some (msg, has_response) \<Rightarrow> send_message env socket_file msg has_response)))"

section \<open>Notions used in the statements\<close>

text \<open>The events that a run from \<open>w\<close> to \<open>w'\<close> added to the trace.\<close>

definition new_events :: "world \<Rightarrow> world \<Rightarrow> event list" where
  "new_events w w' = drop (length (trace w)) (trace w')"

text \<open>\<open>w'\<close> comes from \<open>w\<close> by events that all satisfy \<open>P\<close>, and ioctl buffers
  are still allocated at the same address.\<close>

definition steps :: "(event \<Rightarrow> bool) \<Rightarrow> world \<Rightarrow> world \<Rightarrow> bool" where
  "steps P w w' \<longleftrightarrow>
     (\<exists>es. trace w' = trace w @ es \<and> (\<forall>e\<in>set es. P e)) \<and> heap w' = heap w"

definition is_table_load :: "event \<Rightarrow> bool" where
  "is_table_load e = (case e of Sys (DM_TABLE_LOAD n t) r \<Rightarrow> True | _ \<Rightarrow> False)"


text \<open>The length of key that the \<open>switch\<close> of \<open>cryptfs_setup_volume_new\<close> compares
  with in each mode, and the modes in which a different length makes it return.\<close>

definition expected_hexkey_len :: "cryptfs_mode \<Rightarrow> nat option" where
  "expected_hexkey_len mode =
     (case mode of
        CRYPTFS_MODE_NOT_IMPLEMENTED \<Rightarrow> None
      | CRYPTFS_MODE_AUTHENC \<Rightarrow> Some AUTHENC_HEXKEY_LEN
      | CRYPTFS_MODE_ENCRYPT_ONLY \<Rightarrow> Some CRYPTO_HEXKEY_LEN
      | CRYPTFS_MODE_INTEGRITY_ENCRYPT \<Rightarrow> Some (CRYPTO_HEXKEY_LEN + INTEGRITY_HEXKEY_LEN)
      | CRYPTFS_MODE_INTEGRITY_ONLY \<Rightarrow> Some INTEGRITY_HEXKEY_LEN)"

definition strict_length :: "cryptfs_mode \<Rightarrow> bool" where
  "strict_length mode \<longleftrightarrow>
     mode = CRYPTFS_MODE_INTEGRITY_ENCRYPT \<or> mode = CRYPTFS_MODE_INTEGRITY_ONLY"

text \<open>The names on which a run issued \<open>DM_DEV_REMOVE\<close>, in order, and the names that
  \<open>cryptfs_delete_blk_dev\<close> is to remove in each mode: the crypt device, then the
  integrity device.\<close>

definition remove_calls :: "event list \<Rightarrow> string list" where
  "remove_calls es = concat (map (\<lambda>e. case e of Sys (DM_DEV_REMOVE n) r \<Rightarrow> [n] | _ \<Rightarrow> []) es)"

definition delete_order :: "string \<Rightarrow> cryptfs_mode \<Rightarrow> string list" where
  "delete_order name mode =
     (case mode of
        CRYPTFS_MODE_AUTHENC \<Rightarrow> [name, name @ ''-integrity'']
      | CRYPTFS_MODE_INTEGRITY_ENCRYPT \<Rightarrow> [name, name @ ''-integrity'']
      | CRYPTFS_MODE_ENCRYPT_ONLY \<Rightarrow> [name]
      | CRYPTFS_MODE_INTEGRITY_ONLY \<Rightarrow> [name @ ''-integrity'']
      | CRYPTFS_MODE_NOT_IMPLEMENTED \<Rightarrow> [])"


text \<open>The commands that \<open>main\<close> compares with.\<close>

definition known_commands :: "string list" where
  "known_commands =
     [''dmcrypt_setup'', ''exit'', ''getrandom'', ''clear'', ''dmcrypt_lock'', ''change_owner'',
      ''dmcrypt_reset'']"

section \<open>Worlds for concrete runs\<close>

text \<open>Two loop devices of 16 sectors with nothing on them, no mapped device, no
  injected failure.\<close>

definition world0 :: world where
  "world0 =
     \<lparr> dm_devs = {}, nodes = {},
       blkdevs = [''/dev/loop0'' \<mapsto> \<lparr> bd_size64 = 8192, bd_sector_size = 512, bd_data = [] \<rparr>,
                  ''/dev/loop1'' \<mapsto> \<lparr> bd_size64 = 8192, bd_sector_size = 512, bd_data = [] \<rparr>],
       mounts = Map.empty, heap = 0x10000, fault = (\<lambda>c n. None), trace = [] \<rparr>"

text \<open>\<open>world0\<close> with the integrity device of the volume \<open>vol\<close> mapped, with both
  of its devices mapped, and with its device node present.\<close>

definition world_integrity_mapped :: world where
  "world_integrity_mapped = world0\<lparr>dm_devs := {''vol-integrity''}\<rparr>"

definition world_mapped :: world where
  "world_mapped = world0\<lparr>dm_devs := {''vol'', ''vol-integrity''}\<rparr>"


text \<open>The same, with every \<open>DM_TABLE_LOAD\<close> on the device \<open>vol\<close> failing.\<close>

definition world_crypt_load_fails :: world where
  "world_crypt_load_fails =
     world0\<lparr>fault := (\<lambda>c n. case c of
                                  DM_TABLE_LOAD name t \<Rightarrow> if name = ''vol'' then Some EBUSY else None
                                | _ \<Rightarrow> None)\<rparr>"




text \<open>Keys of 192 and of 128 hex digits.\<close>

definition key192 :: string where
  "key192 = replicate 192 (CHR ''0'')"





text \<open>An environment of the command line in which the socket exists and everything
  works.\<close>

definition cli_env0 :: cli_env where
  "cli_env0 =
     \<lparr> TPM2D_SOCKET = ''/run/socket/cml-tpm2d-control'',
       file_exists = (\<lambda>p. p = ''/run/socket/cml-tpm2d-control''),
       connect_ok = (\<lambda>p. True), send_ok = True, recv_ok = True,
       getopt_dmsetup = (\<lambda>args. ([], 1)) \<rparr>"

section \<open>Properties\<close>

subsection \<open>The environment\<close>

lemma syscall_frame:
  "syscall c w = (r, w') \<Longrightarrow>
     trace w' = trace w @ [Sys c r] \<and> fault w' = fault w \<and> heap w' = heap w \<and> blkdevs w' = blkdevs w"
  by (cases c) (auto simp: syscall_def kernel_def split: option.splits if_splits)


lemma logf_frame [simp]:
  "trace (logf l m w) = trace w @ [Log l m]" "fault (logf l m w) = fault w"
  "heap (logf l m w) = heap w" "blkdevs (logf l m w) = blkdevs w"
  "dm_devs (logf l m w) = dm_devs w" "nodes (logf l m w) = nodes w" "mounts (logf l m w) = mounts w"
  by (simp_all add: logf_def)

lemma errno_val_pos [simp]: "0 < errno_val e" "0 \<le> errno_val e" "\<not> errno_val e < 0"
  by (cases e; simp)+

lemma syscall_nofault:
  "\<forall>c n. fault w c n = None \<Longrightarrow> syscall c w = (fst (kernel c w), (snd (kernel c w))\<lparr>trace := trace w @ [Sys c (fst (kernel c w))]\<rparr>)"
  by (simp add: syscall_def split: prod.splits)




lemma new_events_append: "trace w' = trace w @ es \<Longrightarrow> new_events w w' = es"
  by (simp add: new_events_def)

subsection \<open>Parameter strings\<close>

lemma fmt_d_tag: "fmt_d INTEGRITY_TAG_SIZE = ''32''"
  by (simp add: INTEGRITY_TAG_SIZE_def fmt_d.simps digit_def)

lemma integrity_params_standalone:
  "tgt_params (integrity_mapping_target buffer (Some data_dev) (Some meta_dev) (Some hex_key) fs_size False)
   = take 3743 (data_dev @ '' 0 32 J 3 meta_device:'' @ meta_dev
                @ '' internal_hash:hmac(sha256):'' @ hex_key @ '' allow_discards'') @ [NUL]"
  by (simp add: integrity_mapping_target_def integrity_extra_params_def snprintf_def
      DM_INTEGRITY_BUF_SIZE_def sizeof_dm_ioctl_def sizeof_dm_target_spec_def
      fmt_d_tag fmt_s_def INTEGRITY_TYPE_def Let_def)

lemma integrity_params_stacked:
  "tgt_params (integrity_mapping_target buffer (Some data_dev) (Some meta_dev) key fs_size True)
   = take 3743 (data_dev @ '' 0 32 J 1 meta_device:'' @ meta_dev) @ [NUL]"
  by (simp add: integrity_mapping_target_def integrity_extra_params_def snprintf_def
      DM_INTEGRITY_BUF_SIZE_def sizeof_dm_ioctl_def sizeof_dm_target_spec_def
      fmt_d_tag fmt_s_def INTEGRITY_TYPE_def Let_def)

lemma crypto_params:
  "tgt_params (crypto_mapping_target h d k f a)
   = take 3743 ((if a then ''capi:authenc(hmac(sha256),xts(aes))-random '' else ''aes-xts-plain64 '')
                @ fmt_s k @ '' 0 '' @ fmt_s d
                @ (if a then '' 0 1 integrity:32:aead'' else '' 0 1 allow_discards'')) @ [NUL]"
  by (simp add: crypto_mapping_target_def crypto_extra_params_def snprintf_def
      DM_CRYPT_BUF_SIZE_def sizeof_dm_ioctl_def sizeof_dm_target_spec_def
      fmt_d_tag CRYPTO_TYPE_def CRYPTO_TYPE_AUTHENC_def Let_def)

lemma target_types [simp]:
  "tgt_target_type (integrity_mapping_target h d m k f s) = ''integrity''"
  "tgt_target_type (crypto_mapping_target h d k f a) = ''crypt''"
  by (simp_all add: integrity_mapping_target_def crypto_mapping_target_def Let_def)

lemma c_str_terminated: "NUL \<notin> set s \<Longrightarrow> c_str (s @ [NUL]) = s"
  by (induction s) (auto simp: c_str_def)

lemma strlen_terminated: "NUL \<notin> set s \<Longrightarrow> strlen (s @ [NUL]) = length s"
  by (simp add: strlen_def c_str_terminated)

lemma crypto_next:
  "tgt_next (crypto_mapping_target buffer real key fs_size integrity)
   = next_target_offset buffer (tgt_params (crypto_mapping_target buffer real key fs_size integrity))"
  by (simp add: crypto_mapping_target_def Let_def)

subsection \<open>The events of each function\<close>






lemma steps_new_events: "steps P w w' \<Longrightarrow> e \<in> set (new_events w w') \<Longrightarrow> P e"
  by (auto simp: steps_def new_events_def)

lemma dm_ioctl_retry_steps:
  "dm_ioctl_retry c i w = (k, w') \<Longrightarrow> steps (\<lambda>e. \<exists>r. e = Sys c r) w w'"
proof (induction c i w arbitrary: k w' rule: dm_ioctl_retry.induct)
  case (1 c counter w)
  show ?case
  proof (cases "counter < TABLE_LOAD_RETRIES")
    case False
    with "1.prems" show ?thesis by (simp add: dm_ioctl_retry.simps [of c counter w] steps_def)
  next
    case True
    obtain r w1 where s: "syscall c w = (r, w1)" by (cases "syscall c w")
    note f = syscall_frame [OF s]
    show ?thesis
    proof (cases r)
      case None
      with True s "1.prems" have "w' = w1" by (simp add: dm_ioctl_retry.simps [of c counter w])
      with f show ?thesis by (simp add: steps_def)
    next
      case (Some e)
      with True s "1.prems" have rec: "dm_ioctl_retry c (counter + 1) w1 = (k, w')"
        by (simp add: dm_ioctl_retry.simps [of c counter w])
      from "1.IH" [OF True s [symmetric] _ rec] Some
      have "steps (\<lambda>e. \<exists>r. e = Sys c r) w1 w'" by simp
      with f show ?thesis by (auto simp: steps_def)
    qed
  qed
qed


lemma load_integrity_steps:
  "load_integrity_mapping_table real meta key name fs_size stacked w = (r, w') \<Longrightarrow>
   steps (\<lambda>e. is_table_load e \<longrightarrow>
            (\<exists>res. e = Sys (DM_TABLE_LOAD name
                       (integrity_mapping_target (heap w) real meta key fs_size stacked)) res)) w w'"
  by (auto simp: load_integrity_mapping_table_def steps_def is_table_load_def
      split: if_splits prod.splits dest!: dm_ioctl_retry_steps)























subsection \<open>Unfolding for concrete runs\<close>

lemmas eval_defs = syscall_def kernel_def logf_def new_events_def dm_ioctl_retry.simps TABLE_LOAD_RETRIES_def

lemmas setup_defs = cryptfs_setup_volume_new_def setup_mode_switch_def setup_stack_def setup_probe_size_def
  setup_integrity_layer_def setup_crypt_layer_def setup_initial_format_def setup_error_exit_def
  get_provided_data_sectors_def create_integrity_blk_dev_def create_crypto_blk_dev_def
  create_device_node_def load_integrity_mapping_table_def load_crypto_mapping_table_def
  delete_integrity_blk_dev_def delete_crypto_blk_dev_def cryptfs_write_zeros_def
  write_zeros_loop.simps zero_blocks_loop.simps
  sys_read_def dm_get_blkdev_sector_size_def dm_get_blkdev_size64_def
  CRYPTO_HEXKEY_LEN_def INTEGRITY_HEXKEY_LEN_def AUTHENC_HEXKEY_LEN_def AUTHENC_KEY_LEN_def CRYPTFS_FDE_KEY_LEN_def INTEGRITY_TAG_SIZE_def
  DM_CONTROL_def cryptfs_get_device_path_new_def DM_PATH_PREFIX_def ZERO_BUF_SIZE_def DM_INTEGRITY_BUF_SIZE_def


subsection \<open>Rollback of a failed setup\<close>

text \<open>
  C1, at a failing input: \<open>IntegrityEncrypt\<close> on the label \<open>vol\<close>, where loading
  the crypt table fails at all ten attempts. The call returns failure, and the integrity
  device \<open>vol-integrity\<close> is still mapped afterwards: the error path calls
  \<open>delete_integrity_blk_dev\<close> with \<open>label\<close>, which removes the half-built device
  \<open>vol\<close>, and never names \<open>vol-integrity\<close>.
\<close>

theorem setup_rollback_leaves_integrity_device:
  "fst (cryptfs_setup_volume_new (Some ''vol'') (Some ''/dev/loop0'') (Some key192)
          (Some ''/dev/loop1'') CRYPTFS_MODE_INTEGRITY_ENCRYPT world_crypt_load_fails) = Inl SetupFailed
   \<and> dm_devs (snd (cryptfs_setup_volume_new (Some ''vol'') (Some ''/dev/loop0'') (Some key192)
          (Some ''/dev/loop1'') CRYPTFS_MODE_INTEGRITY_ENCRYPT world_crypt_load_fails)) = {''vol-integrity''}"
  by (simp add: world_crypt_load_fails_def world0_def key192_def setup_defs eval_defs)

subsection \<open>The integrity table\<close>

text \<open>
  C2 (as amended). For every call to \<open>load_integrity_mapping_table\<close> with a data and a
  meta device, every \<open>DM_TABLE_LOAD\<close> it issues carries, as the bytes of the parameter
  area, the first 3743 bytes of
  \<open><data_dev> 0 32 J 3 meta_device:<meta_dev> internal_hash:hmac(sha256):<hex_key> allow_discards\<close>
  when \<open>stacked\<close> is false and a key is given, and of
  \<open><data_dev> 0 32 J 1 meta_device:<meta_dev>\<close> when \<open>stacked\<close> is true, followed by
  a NUL: the string itself when it has at most 3743 bytes.
\<close>

theorem integrity_table_params:
  "(\<forall>e \<in> set (new_events w (snd (load_integrity_mapping_table (Some data_dev) (Some meta_dev)
                                   (Some hex_key) name fs_size False w))).
      \<forall>n t r. e = Sys (DM_TABLE_LOAD n t) r \<longrightarrow>
        tgt_params t =
          take 3743 (data_dev @ '' 0 32 J 3 meta_device:'' @ meta_dev
                     @ '' internal_hash:hmac(sha256):'' @ hex_key @ '' allow_discards'') @ [NUL])
   \<and> (\<forall>e \<in> set (new_events w (snd (load_integrity_mapping_table (Some data_dev) (Some meta_dev)
                                   key name fs_size True w))).
      \<forall>n t r. e = Sys (DM_TABLE_LOAD n t) r \<longrightarrow>
        tgt_params t = take 3743 (data_dev @ '' 0 32 J 1 meta_device:'' @ meta_dev) @ [NUL])"
proof (intro conjI ballI allI impI)
  fix e n t r
  assume "e \<in> set (new_events w (snd (load_integrity_mapping_table (Some data_dev) (Some meta_dev)
                                   (Some hex_key) name fs_size False w)))"
    and e: "e = Sys (DM_TABLE_LOAD n t) r"
  from steps_new_events [OF load_integrity_steps [OF surjective_pairing] this(1)] e
  have "t = integrity_mapping_target (heap w) (Some data_dev) (Some meta_dev) (Some hex_key) fs_size False"
    by (simp add: is_table_load_def)
  then show "tgt_params t =
          take 3743 (data_dev @ '' 0 32 J 3 meta_device:'' @ meta_dev
                     @ '' internal_hash:hmac(sha256):'' @ hex_key @ '' allow_discards'') @ [NUL]"
    by (simp only: integrity_params_standalone)
next
  fix e n t r
  assume "e \<in> set (new_events w (snd (load_integrity_mapping_table (Some data_dev) (Some meta_dev)
                                   key name fs_size True w)))"
    and e: "e = Sys (DM_TABLE_LOAD n t) r"
  from steps_new_events [OF load_integrity_steps [OF surjective_pairing] this(1)] e
  have "t = integrity_mapping_target (heap w) (Some data_dev) (Some meta_dev) key fs_size True"
    by (simp add: is_table_load_def)
  then show "tgt_params t = take 3743 (data_dev @ '' 0 32 J 1 meta_device:'' @ meta_dev) @ [NUL]"
    by (simp only: integrity_params_stacked)
qed

theorem integrity_table_params_witness:
  "Sys (DM_TABLE_LOAD ''vol-integrity''
          (integrity_mapping_target 0x10000 (Some ''/dev/loop0'') (Some ''/dev/loop1'') (Some ''00ff'') 16 False)) None
     \<in> set (new_events world_integrity_mapped (snd (load_integrity_mapping_table (Some ''/dev/loop0'') (Some ''/dev/loop1'')
                                   (Some ''00ff'') ''vol-integrity'' 16 False world_integrity_mapped)))
   \<and> tgt_params (integrity_mapping_target 0x10000 (Some ''/dev/loop0'') (Some ''/dev/loop1'') (Some ''00ff'') 16 False)
       = ''/dev/loop0 0 32 J 3 meta_device:/dev/loop1 internal_hash:hmac(sha256):00ff allow_discards'' @ [NUL]
   \<and> Sys (DM_TABLE_LOAD ''vol-integrity''
          (integrity_mapping_target 0x10000 (Some ''/dev/loop0'') (Some ''/dev/loop1'') None 16 True)) None
     \<in> set (new_events world_integrity_mapped (snd (load_integrity_mapping_table (Some ''/dev/loop0'') (Some ''/dev/loop1'')
                                   None ''vol-integrity'' 16 True world_integrity_mapped)))
   \<and> tgt_params (integrity_mapping_target 0x10000 (Some ''/dev/loop0'') (Some ''/dev/loop1'') None 16 True)
       = ''/dev/loop0 0 32 J 1 meta_device:/dev/loop1'' @ [NUL]"
proof -
  have a: "Sys (DM_TABLE_LOAD ''vol-integrity''
          (integrity_mapping_target 0x10000 (Some ''/dev/loop0'') (Some ''/dev/loop1'') (Some ''00ff'') 16 False)) None
     \<in> set (new_events world_integrity_mapped (snd (load_integrity_mapping_table (Some ''/dev/loop0'') (Some ''/dev/loop1'')
                                   (Some ''00ff'') ''vol-integrity'' 16 False world_integrity_mapped)))"
    by (simp add: load_integrity_mapping_table_def world_integrity_mapped_def world0_def eval_defs)
  have b: "Sys (DM_TABLE_LOAD ''vol-integrity''
          (integrity_mapping_target 0x10000 (Some ''/dev/loop0'') (Some ''/dev/loop1'') None 16 True)) None
     \<in> set (new_events world_integrity_mapped (snd (load_integrity_mapping_table (Some ''/dev/loop0'') (Some ''/dev/loop1'')
                                   None ''vol-integrity'' 16 True world_integrity_mapped)))"
    by (simp add: load_integrity_mapping_table_def world_integrity_mapped_def world0_def eval_defs)
  note inst = integrity_table_params [of world_integrity_mapped "''/dev/loop0''" "''/dev/loop1''" "''00ff''" "''vol-integrity''" 16 None]
  from a inst have c: "tgt_params (integrity_mapping_target 0x10000 (Some ''/dev/loop0'') (Some ''/dev/loop1'') (Some ''00ff'') 16 False)
       = take 3743 (''/dev/loop0'' @ '' 0 32 J 3 meta_device:'' @ ''/dev/loop1''
                     @ '' internal_hash:hmac(sha256):'' @ ''00ff'' @ '' allow_discards'') @ [NUL]"
    by blast
  from b inst have d: "tgt_params (integrity_mapping_target 0x10000 (Some ''/dev/loop0'') (Some ''/dev/loop1'') None 16 True)
       = take 3743 (''/dev/loop0'' @ '' 0 32 J 1 meta_device:'' @ ''/dev/loop1'') @ [NUL]"
    by blast
  from a b c d show ?thesis by simp
qed

text \<open>
  C2 as stated fails: with a data device name of 3744 bytes the bytes in the buffer are
  not the full string.
\<close>

theorem integrity_table_params_counterexample:
  "tgt_params (integrity_mapping_target 0x10000 (Some (replicate 3744 (CHR ''a''))) (Some ''/dev/loop1'') None 16 True)
   \<noteq> (replicate 3744 (CHR ''a'') @ '' 0 32 J 1 meta_device:/dev/loop1'') @ [NUL]"
proof
  assume "tgt_params (integrity_mapping_target 0x10000 (Some (replicate 3744 (CHR ''a''))) (Some ''/dev/loop1'') None 16 True)
   = (replicate 3744 (CHR ''a'') @ '' 0 32 J 1 meta_device:/dev/loop1'') @ [NUL]"
  then have "length (tgt_params (integrity_mapping_target 0x10000 (Some (replicate 3744 (CHR ''a''))) (Some ''/dev/loop1'') None 16 True))
   = length ((replicate 3744 (CHR ''a'') @ '' 0 32 J 1 meta_device:/dev/loop1'') @ [NUL])"
    by (rule arg_cong)
  then show False by (simp add: integrity_params_stacked)
qed

subsection \<open>The crypt table\<close>




subsection \<open>Key lengths\<close>

lemma setup_stack_result:
  "fst (setup_stack label real key meta mv w) \<noteq> Inl InvalidKeyLength"
  apply (simp only: setup_stack_def Let_def)
  apply (split prod.split, intro allI impI)
  apply (split option.split, intro conjI allI impI)
   apply simp
  apply (split prod.split, intro allI impI)
  apply (split prod.split, intro allI impI)
  apply (split if_split, intro conjI allI impI)
   apply simp
  apply (split prod.split, intro allI impI)
  apply (split option.split, intro conjI allI impI)
   apply simp
  apply (split if_split, intro conjI allI impI)
  apply (split prod.split, intro allI impI)
   apply (split bool.split, intro conjI allI impI)
    apply simp
   apply simp
  apply simp
  done

lemma setup_mode_switch_result:
  "setup_mode_switch mode real key meta w = (Inl r, w') \<Longrightarrow> expected_hexkey_len mode = Some (length key)
   \<Longrightarrow> r \<noteq> Inl InvalidKeyLength"
  by (auto simp: setup_mode_switch_def expected_hexkey_len_def split: cryptfs_mode.splits if_splits)

text \<open>
  C4. A key of the length the mode expects passes the validation of
  \<open>cryptfs_setup_volume_new\<close> (the call never fails with an invalid key length). In the
  modes with a strict length (\<open>IntegrityEncrypt\<close>, \<open>IntegrityOnly\<close>) any other length
  makes the call fail with an invalid key length before anything is done: the world is
  unchanged. In the other two modes (\<open>AuthEnc\<close>, \<open>EncryptOnly\<close>) a key of another
  length, in particular a longer one, only adds a warning to the log and the setup goes on
  with the whole key. Where a mode requires a meta device (\<open>AuthEnc\<close>,
  \<open>IntegrityEncrypt\<close>), that check comes before the one of the key, so the meta device
  is given.
\<close>

theorem setup_key_length_validation:
  "(expected_hexkey_len mode = Some (length key) \<longrightarrow>
      fst (cryptfs_setup_volume_new (Some label) (Some real) (Some key) meta mode w)
        \<noteq> Inl InvalidKeyLength)
   \<and> (strict_length mode \<and> expected_hexkey_len mode \<noteq> Some (length key)
        \<and> (mode = CRYPTFS_MODE_INTEGRITY_ENCRYPT \<longrightarrow> meta \<noteq> None) \<longrightarrow>
      cryptfs_setup_volume_new (Some label) (Some real) (Some key) meta mode w
        = (Inl InvalidKeyLength, w))
   \<and> (\<not> strict_length mode \<and> mode \<noteq> CRYPTFS_MODE_NOT_IMPLEMENTED
        \<and> expected_hexkey_len mode \<noteq> Some (length key)
        \<and> (mode = CRYPTFS_MODE_AUTHENC \<longrightarrow> meta \<noteq> None) \<longrightarrow>
      (\<exists>mv msg.
         setup_mode_switch mode real key meta w = (Inr mv, logf WARN msg w)
         \<and> cryptfs_setup_volume_new (Some label) (Some real) (Some key) meta mode w
             = setup_stack label real key meta mv (logf WARN msg w))
      \<and> fst (cryptfs_setup_volume_new (Some label) (Some real) (Some key) meta mode w)
           \<noteq> Inl InvalidKeyLength)"
proof (intro conjI impI)
  assume e: "expected_hexkey_len mode = Some (length key)"
  obtain r w1 where s: "setup_mode_switch mode real key meta w = (r, w1)"
    by (cases "setup_mode_switch mode real key meta w")
  show "fst (cryptfs_setup_volume_new (Some label) (Some real) (Some key) meta mode w)
        \<noteq> Inl InvalidKeyLength"
  proof (cases r)
    case (Inl a)
    with s e setup_mode_switch_result [of mode real key meta w a w1] show ?thesis
      by (simp add: cryptfs_setup_volume_new_def)
  next
    case (Inr mv)
    with s show ?thesis
      by (simp add: cryptfs_setup_volume_new_def setup_stack_result)
  qed
next
  assume "strict_length mode \<and> expected_hexkey_len mode \<noteq> Some (length key)
        \<and> (mode = CRYPTFS_MODE_INTEGRITY_ENCRYPT \<longrightarrow> meta \<noteq> None)"
  then show "cryptfs_setup_volume_new (Some label) (Some real) (Some key) meta mode w
        = (Inl InvalidKeyLength, w)"
    by (auto simp: cryptfs_setup_volume_new_def setup_mode_switch_def strict_length_def
        expected_hexkey_len_def)
next
  assume a: "\<not> strict_length mode \<and> mode \<noteq> CRYPTFS_MODE_NOT_IMPLEMENTED
        \<and> expected_hexkey_len mode \<noteq> Some (length key)
        \<and> (mode = CRYPTFS_MODE_AUTHENC \<longrightarrow> meta \<noteq> None)"
  then show "\<exists>mv msg.
         setup_mode_switch mode real key meta w = (Inr mv, logf WARN msg w)
         \<and> cryptfs_setup_volume_new (Some label) (Some real) (Some key) meta mode w
             = setup_stack label real key meta mv (logf WARN msg w)"
    by (cases mode)
       (auto simp: cryptfs_setup_volume_new_def setup_mode_switch_def strict_length_def
        expected_hexkey_len_def)
  then show "fst (cryptfs_setup_volume_new (Some label) (Some real) (Some key) meta mode w)
           \<noteq> Inl InvalidKeyLength"
    by (auto simp: setup_stack_result)
qed

theorem setup_key_length_validation_witness:
  "fst (cryptfs_setup_volume_new (Some ''vol'') (Some ''/dev/loop0'') (Some (replicate 64 (CHR ''0'')))
          (Some ''/dev/loop1'') CRYPTFS_MODE_INTEGRITY_ONLY world0) \<noteq> Inl InvalidKeyLength
   \<and> cryptfs_setup_volume_new (Some ''vol'') (Some ''/dev/loop0'') (Some (replicate 65 (CHR ''0'')))
          (Some ''/dev/loop1'') CRYPTFS_MODE_INTEGRITY_ONLY world0 = (Inl InvalidKeyLength, world0)
   \<and> fst (cryptfs_setup_volume_new (Some ''vol'') (Some ''/dev/loop0'') (Some (replicate 130 (CHR ''0'')))
          None CRYPTFS_MODE_ENCRYPT_ONLY world0) \<noteq> Inl InvalidKeyLength"
proof -
  have a: "expected_hexkey_len CRYPTFS_MODE_INTEGRITY_ONLY = Some (length (replicate 64 (CHR ''0'')))"
    by (simp add: expected_hexkey_len_def INTEGRITY_HEXKEY_LEN_def INTEGRITY_TAG_SIZE_def)
  have b: "strict_length CRYPTFS_MODE_INTEGRITY_ONLY
      \<and> expected_hexkey_len CRYPTFS_MODE_INTEGRITY_ONLY \<noteq> Some (length (replicate 65 (CHR ''0'')))
      \<and> (CRYPTFS_MODE_INTEGRITY_ONLY = CRYPTFS_MODE_INTEGRITY_ENCRYPT \<longrightarrow> Some ''/dev/loop1'' \<noteq> None)"
    by (simp add: strict_length_def expected_hexkey_len_def INTEGRITY_HEXKEY_LEN_def
        INTEGRITY_TAG_SIZE_def)
  have c: "\<not> strict_length CRYPTFS_MODE_ENCRYPT_ONLY
      \<and> CRYPTFS_MODE_ENCRYPT_ONLY \<noteq> CRYPTFS_MODE_NOT_IMPLEMENTED
      \<and> expected_hexkey_len CRYPTFS_MODE_ENCRYPT_ONLY \<noteq> Some (length (replicate 130 (CHR ''0'')))
      \<and> (CRYPTFS_MODE_ENCRYPT_ONLY = CRYPTFS_MODE_AUTHENC \<longrightarrow> (None :: string option) \<noteq> None)"
    by (simp add: strict_length_def expected_hexkey_len_def CRYPTO_HEXKEY_LEN_def
        CRYPTFS_FDE_KEY_LEN_def)
  from a setup_key_length_validation
         [of CRYPTFS_MODE_INTEGRITY_ONLY "replicate 64 (CHR ''0'')" "''vol''" "''/dev/loop0''"
             "Some ''/dev/loop1''" world0]
  have 1: "fst (cryptfs_setup_volume_new (Some ''vol'') (Some ''/dev/loop0'') (Some (replicate 64 (CHR ''0'')))
          (Some ''/dev/loop1'') CRYPTFS_MODE_INTEGRITY_ONLY world0) \<noteq> Inl InvalidKeyLength"
    by blast
  from b setup_key_length_validation
         [of CRYPTFS_MODE_INTEGRITY_ONLY "replicate 65 (CHR ''0'')" "''vol''" "''/dev/loop0''"
             "Some ''/dev/loop1''" world0]
  have 2: "cryptfs_setup_volume_new (Some ''vol'') (Some ''/dev/loop0'') (Some (replicate 65 (CHR ''0'')))
          (Some ''/dev/loop1'') CRYPTFS_MODE_INTEGRITY_ONLY world0 = (Inl InvalidKeyLength, world0)"
    by blast
  from c setup_key_length_validation
         [of CRYPTFS_MODE_ENCRYPT_ONLY "replicate 130 (CHR ''0'')" "''vol''" "''/dev/loop0''"
             None world0]
  have 3: "fst (cryptfs_setup_volume_new (Some ''vol'') (Some ''/dev/loop0'') (Some (replicate 130 (CHR ''0'')))
          None CRYPTFS_MODE_ENCRYPT_ONLY world0) \<noteq> Inl InvalidKeyLength"
    by blast
  from 1 2 3 show ?thesis by blast
qed

subsection \<open>The first-use initialisation\<close>









subsection \<open>Detecting first use\<close>





subsection \<open>The target descriptor\<close>

text \<open>
  C7, at a failing input: the crypt table of that same volume (plain mode, a key of 128
  hex digits, the integrity device below, the buffer at address \<open>0x10000\<close>). The string
  has 191 bytes, \<open>tgt->next\<close> becomes 551, and the address it designates is 7 modulo 8:
  the mask \<open>~8\<close> clears one bit where \<open>~7\<close> would clear three.
\<close>

theorem next_target_offset_unaligned:
  "tgt_next (crypto_mapping_target 0x10000 (Some ''/dev/mapper/vol-integrity'')
       (Some (replicate 128 (CHR ''0''))) 16 False) = 551
   \<and> (0x10000 + ucast (tgt_next (crypto_mapping_target 0x10000 (Some ''/dev/mapper/vol-integrity'')
       (Some (replicate 128 (CHR ''0''))) 16 False)) :: 64 word) AND 7 = 7"
proof -
  have "strlen (tgt_params (crypto_mapping_target 0x10000 (Some ''/dev/mapper/vol-integrity'')
       (Some (replicate 128 (CHR ''0''))) 16 False)) = 191"
    unfolding crypto_params
    by (subst strlen_terminated) (simp_all add: NUL_def fmt_s_def)
  then have "tgt_next (crypto_mapping_target 0x10000 (Some ''/dev/mapper/vol-integrity'')
       (Some (replicate 128 (CHR ''0''))) 16 False) = 551"
    unfolding crypto_next
    by (simp add: next_target_offset_def sizeof_dm_ioctl_def sizeof_dm_target_spec_def)
  then show ?thesis by simp
qed

subsection \<open>Removing the devices\<close>

text \<open>What one remover does: its result, the removals it issued, and whether opening
  the control device failed.\<close>

lemma delete_integrity_run:
  assumes "delete_integrity_blk_dev name w = (r, w')"
  shows "\<exists>es. trace w' = trace w @ es \<and> fault w' = fault w
          \<and> (r < 0 \<longrightarrow> remove_calls es = [] \<and> (\<exists>e. Sys (Open (Some DM_CONTROL) O_RDWR) (Some e) \<in> set es))
          \<and> (0 \<le> r \<longrightarrow> remove_calls es = [name])"
  using assms
  by (auto simp: delete_integrity_blk_dev_def remove_calls_def
      split: prod.splits option.splits if_splits dest!: syscall_frame)

lemma delete_crypto_run:
  assumes "delete_crypto_blk_dev fd name w = (r, w')" "fd = - 1 \<or> 0 \<le> fd"
  shows "\<exists>es. trace w' = trace w @ es \<and> fault w' = fault w
          \<and> (r < 0 \<longrightarrow> remove_calls es = [] \<and> (\<exists>e. Sys (Open (Some DM_CONTROL) O_RDWR) (Some e) \<in> set es))
          \<and> (0 \<le> r \<longrightarrow> remove_calls es = [name])"
  using assms
  by (auto simp: delete_crypto_blk_dev_def remove_calls_def
      split: prod.splits option.splits if_splits dest!: syscall_frame)

lemma delete_integrity_nofault:
  assumes "\<forall>c n. fault w c n = None" "delete_integrity_blk_dev name w = (r, w')"
  shows "0 \<le> r \<and> dm_devs w' = dm_devs w - {name} \<and> fault w' = fault w"
  using assms
  by (auto simp: delete_integrity_blk_dev_def syscall_def kernel_def DM_CONTROL_def
      split: prod.splits option.splits if_splits)

lemma delete_crypto_nofault:
  assumes "\<forall>c n. fault w c n = None" "delete_crypto_blk_dev fd name w = (r, w')" "fd = - 1 \<or> 0 \<le> fd"
  shows "0 \<le> r \<and> dm_devs w' = dm_devs w - {name} \<and> fault w' = fault w"
  using assms
  by (auto simp: delete_crypto_blk_dev_def syscall_def kernel_def DM_CONTROL_def
      split: prod.splits option.splits if_splits)

lemma remove_calls_simps [simp]:
  "remove_calls [] = []"
  "remove_calls (es @ es') = remove_calls es @ remove_calls es'"
  "remove_calls (Log l m # es) = remove_calls es"
  by (simp_all add: remove_calls_def)

lemma delete_blk_dev_run:
  assumes fd: "fd = - 1 \<or> 0 \<le> fd" and mode: "mode \<noteq> CRYPTFS_MODE_NOT_IMPLEMENTED"
    and run: "cryptfs_delete_blk_dev fd name mode w = (r, w')"
  shows "\<exists>es. trace w' = trace w @ es
          \<and> (\<exists>k. remove_calls es = take k (delete_order name mode))
          \<and> (r = 0 \<longrightarrow> remove_calls es = delete_order name mode)
          \<and> (r \<noteq> 0 \<longrightarrow> (\<exists>e. Sys (Open (Some DM_CONTROL) O_RDWR) (Some e) \<in> set es))"
proof -
  obtain r1 w1 where c: "delete_crypto_blk_dev fd name w = (r1, w1)"
    by (cases "delete_crypto_blk_dev fd name w")
  from delete_crypto_run [OF c fd] obtain es1 where
    es1: "trace w1 = trace w @ es1" "r1 < 0 \<longrightarrow> remove_calls es1 = [] \<and> (\<exists>e. Sys (Open (Some DM_CONTROL) O_RDWR) (Some e) \<in> set es1)"
      "0 \<le> r1 \<longrightarrow> remove_calls es1 = [name]"
    by blast
  obtain r2 w2 where i2: "delete_integrity_blk_dev (name @ ''-integrity'') w1 = (r2, w2)"
    by (cases "delete_integrity_blk_dev (name @ ''-integrity'') w1")
  from delete_integrity_run [OF i2] obtain es2 where
    es2: "trace w2 = trace w1 @ es2" "r2 < 0 \<longrightarrow> remove_calls es2 = [] \<and> (\<exists>e. Sys (Open (Some DM_CONTROL) O_RDWR) (Some e) \<in> set es2)"
      "0 \<le> r2 \<longrightarrow> remove_calls es2 = [name @ ''-integrity'']"
    by blast
  obtain r3 w3 where i3: "delete_integrity_blk_dev (name @ ''-integrity'') w = (r3, w3)"
    by (cases "delete_integrity_blk_dev (name @ ''-integrity'') w")
  from delete_integrity_run [OF i3] obtain es3 where
    es3: "trace w3 = trace w @ es3" "r3 < 0 \<longrightarrow> remove_calls es3 = [] \<and> (\<exists>e. Sys (Open (Some DM_CONTROL) O_RDWR) (Some e) \<in> set es3)"
      "0 \<le> r3 \<longrightarrow> remove_calls es3 = [name @ ''-integrity'']"
    by blast
  have both: ?thesis if m: "mode = CRYPTFS_MODE_AUTHENC \<or> mode = CRYPTFS_MODE_INTEGRITY_ENCRYPT"
  proof -
    have d: "delete_order name mode = [name, name @ ''-integrity'']"
      using m by (auto simp: delete_order_def)
    consider "r1 < 0" | "0 \<le> r1" "r2 < 0" | "0 \<le> r1" "0 \<le> r2" by linarith
    then show ?thesis
    proof cases
      case 1
      with m c run have "r = - 1" "w' = logf ERROR ''Failed to delete crypto dev'' w1"
        by (auto simp: cryptfs_delete_blk_dev_def)
      with 1 es1 d show ?thesis
        by (intro exI [of _ "es1 @ [Log ERROR ''Failed to delete crypto dev'']"])
           (auto intro: exI [of _ 0])
    next
      case 2
      with m c i2 run have "r = - 1" "w' = logf ERROR ''Failed to delete integrity dev'' w2"
        by (auto simp: cryptfs_delete_blk_dev_def)
      with 2 es1 es2 d show ?thesis
        by (intro exI [of _ "es1 @ es2 @ [Log ERROR ''Failed to delete integrity dev'']"])
           (auto intro: exI [of _ 1])
    next
      case 3
      with m c i2 run have "r = 0" "w' = w2"
        by (auto simp: cryptfs_delete_blk_dev_def)
      with 3 es1 es2 d show ?thesis
        by (intro exI [of _ "es1 @ es2"]) (auto intro: exI [of _ 2])
    qed
  qed
  have enc: ?thesis if m: "mode = CRYPTFS_MODE_ENCRYPT_ONLY"
  proof -
    have d: "delete_order name mode = [name]"
      using m by (auto simp: delete_order_def)
    consider "r1 < 0" | "0 \<le> r1" by linarith
    then show ?thesis
    proof cases
      case 1
      with m c run have "r = - 1" "w' = logf ERROR ''Failed to delete crypto dev'' w1"
        by (auto simp: cryptfs_delete_blk_dev_def)
      with 1 es1 d show ?thesis
        by (intro exI [of _ "es1 @ [Log ERROR ''Failed to delete crypto dev'']"])
           (auto intro: exI [of _ 0])
    next
      case 2
      with m c run have "r = 0" "w' = w1"
        by (auto simp: cryptfs_delete_blk_dev_def)
      with 2 es1 d show ?thesis
        by (intro exI [of _ "es1"]) (auto intro: exI [of _ 1])
    qed
  qed
  have int: ?thesis if m: "mode = CRYPTFS_MODE_INTEGRITY_ONLY"
  proof -
    have d: "delete_order name mode = [name @ ''-integrity'']"
      using m by (auto simp: delete_order_def)
    consider "r3 < 0" | "0 \<le> r3" by linarith
    then show ?thesis
    proof cases
      case 1
      with m i3 run have "r = - 1" "w' = logf ERROR ''Failed to delete integrity dev'' w3"
        by (auto simp: cryptfs_delete_blk_dev_def)
      with 1 es3 d show ?thesis
        by (intro exI [of _ "es3 @ [Log ERROR ''Failed to delete integrity dev'']"])
           (auto intro: exI [of _ 0])
    next
      case 2
      with m i3 run have "r = 0" "w' = w3"
        by (auto simp: cryptfs_delete_blk_dev_def)
      with 2 es3 d show ?thesis
        by (intro exI [of _ "es3"]) (auto intro: exI [of _ 1])
    qed
  qed
  from mode both enc int show ?thesis by (cases mode) auto
qed

lemma delete_blk_dev_nofault:
  assumes fd: "fd = - 1 \<or> 0 \<le> fd" and mode: "mode \<noteq> CRYPTFS_MODE_NOT_IMPLEMENTED"
    and nf: "\<forall>c n. fault w c n = None"
    and run: "cryptfs_delete_blk_dev fd name mode w = (r, w')"
  shows "r = 0 \<and> dm_devs w' = dm_devs w - set (delete_order name mode) \<and> fault w' = fault w"
proof -
  obtain r1 w1 where c: "delete_crypto_blk_dev fd name w = (r1, w1)"
    by (cases "delete_crypto_blk_dev fd name w")
  note c1 = delete_crypto_nofault [OF nf c fd]
  obtain r2 w2 where i2: "delete_integrity_blk_dev (name @ ''-integrity'') w1 = (r2, w2)"
    by (cases "delete_integrity_blk_dev (name @ ''-integrity'') w1")
  from c1 nf have nf1: "\<forall>c n. fault w1 c n = None" by simp
  note c2 = delete_integrity_nofault [OF nf1 i2]
  obtain r3 w3 where i3: "delete_integrity_blk_dev (name @ ''-integrity'') w = (r3, w3)"
    by (cases "delete_integrity_blk_dev (name @ ''-integrity'') w")
  note c3 = delete_integrity_nofault [OF nf i3]
  from mode show ?thesis
  proof (cases mode)
    case CRYPTFS_MODE_AUTHENC
    with c i2 c1 c2 run show ?thesis
      by (auto simp: cryptfs_delete_blk_dev_def delete_order_def)
  next
    case CRYPTFS_MODE_ENCRYPT_ONLY
    with c c1 run show ?thesis
      by (auto simp: cryptfs_delete_blk_dev_def delete_order_def)
  next
    case CRYPTFS_MODE_INTEGRITY_ENCRYPT
    with c i2 c1 c2 run show ?thesis
      by (auto simp: cryptfs_delete_blk_dev_def delete_order_def)
  next
    case CRYPTFS_MODE_INTEGRITY_ONLY
    with i3 c3 run show ?thesis
      by (auto simp: cryptfs_delete_blk_dev_def delete_order_def)
  qed simp
qed

text \<open>
  C8. In every mode \<open>cryptfs_delete_blk_dev\<close> issues its removals in the order crypt
  device (\<open><label>\<close>, when the mode encrypts) then integrity device
  (\<open><label>-integrity\<close>, when the mode has integrity): the removals issued are always
  a prefix of that list, and the whole list when it returns 0. In the four modes that
  build devices it returns 0 whenever the control device could be opened, whatever the
  removals themselves returned, \<open>ENXIO\<close> for a device that does not exist included.
  Where no failure is injected it returns 0, leaves none of the mode's devices mapped,
  and a second call returns 0 again and changes nothing. \<open>fd\<close> is \<open>-1\<close> or an open
  descriptor.
\<close>

theorem delete_volume_order_and_tolerance:
  assumes fd: "fd = - 1 \<or> 0 \<le> fd"
  shows
    "(\<exists>k. remove_calls (new_events w (snd (cryptfs_delete_blk_dev fd name mode w)))
             = take k (delete_order name mode))
     \<and> (fst (cryptfs_delete_blk_dev fd name mode w) = 0 \<longrightarrow>
          remove_calls (new_events w (snd (cryptfs_delete_blk_dev fd name mode w)))
            = delete_order name mode)
     \<and> (mode \<noteq> CRYPTFS_MODE_NOT_IMPLEMENTED
          \<and> (\<forall>e. Sys (Open (Some DM_CONTROL) O_RDWR) (Some e)
                \<notin> set (new_events w (snd (cryptfs_delete_blk_dev fd name mode w)))) \<longrightarrow>
          fst (cryptfs_delete_blk_dev fd name mode w) = 0)
     \<and> (mode \<noteq> CRYPTFS_MODE_NOT_IMPLEMENTED \<and> (\<forall>c n. fault w c n = None) \<longrightarrow>
          fst (cryptfs_delete_blk_dev fd name mode w) = 0
          \<and> dm_devs (snd (cryptfs_delete_blk_dev fd name mode w))
              = dm_devs w - set (delete_order name mode)
          \<and> fst (cryptfs_delete_blk_dev fd name mode (snd (cryptfs_delete_blk_dev fd name mode w))) = 0
          \<and> dm_devs (snd (cryptfs_delete_blk_dev fd name mode
                             (snd (cryptfs_delete_blk_dev fd name mode w))))
              = dm_devs (snd (cryptfs_delete_blk_dev fd name mode w)))"
proof (cases "mode = CRYPTFS_MODE_NOT_IMPLEMENTED")
  case True
  then show ?thesis
    by (simp add: cryptfs_delete_blk_dev_def new_events_def delete_order_def)
next
  case mode: False
  obtain r w' where run: "cryptfs_delete_blk_dev fd name mode w = (r, w')"
    by (cases "cryptfs_delete_blk_dev fd name mode w")
  obtain r2 w2 where run2: "cryptfs_delete_blk_dev fd name mode w' = (r2, w2)"
    by (cases "cryptfs_delete_blk_dev fd name mode w'")
  from delete_blk_dev_run [OF fd mode run] obtain es where
    es: "trace w' = trace w @ es" "\<exists>k. remove_calls es = take k (delete_order name mode)"
      "r = 0 \<longrightarrow> remove_calls es = delete_order name mode"
      "r \<noteq> 0 \<longrightarrow> (\<exists>e. Sys (Open (Some DM_CONTROL) O_RDWR) (Some e) \<in> set es)"
    by blast
  have ne: "new_events w w' = es" using es(1) by (rule new_events_append)
  have nofault: "r = 0 \<and> dm_devs w' = dm_devs w - set (delete_order name mode)
      \<and> r2 = 0 \<and> dm_devs w2 = dm_devs w'" if nf: "\<forall>c n. fault w c n = None"
  proof -
    note a = delete_blk_dev_nofault [OF fd mode nf run]
    then have nf': "\<forall>c n. fault w' c n = None" using nf by simp
    note b = delete_blk_dev_nofault [OF fd mode nf' run2]
    from a b show ?thesis by auto
  qed
  from es ne nofault show ?thesis
    by (simp add: run run2) blast
qed

theorem delete_volume_order_and_tolerance_witness:
  "fst (cryptfs_delete_blk_dev (- 1) ''vol'' CRYPTFS_MODE_INTEGRITY_ENCRYPT world_mapped) = 0
   \<and> dm_devs (snd (cryptfs_delete_blk_dev (- 1) ''vol'' CRYPTFS_MODE_INTEGRITY_ENCRYPT world_mapped)) = {}
   \<and> remove_calls (new_events world_mapped
        (snd (cryptfs_delete_blk_dev (- 1) ''vol'' CRYPTFS_MODE_INTEGRITY_ENCRYPT world_mapped)))
       = [''vol'', ''vol-integrity'']
   \<and> fst (cryptfs_delete_blk_dev (- 1) ''vol'' CRYPTFS_MODE_INTEGRITY_ENCRYPT world0) = 0"
proof -
  have fd: "(- 1 :: int) = - 1 \<or> 0 \<le> (- 1 :: int)" by simp
  have mode: "CRYPTFS_MODE_INTEGRITY_ENCRYPT \<noteq> CRYPTFS_MODE_NOT_IMPLEMENTED" by simp
  have nf: "\<forall>c n. fault world_mapped c n = None" "\<forall>c n. fault world0 c n = None"
    by (simp_all add: world_mapped_def world0_def)
  have d: "dm_devs world_mapped - set (delete_order ''vol'' CRYPTFS_MODE_INTEGRITY_ENCRYPT) = {}"
    "delete_order ''vol'' CRYPTFS_MODE_INTEGRITY_ENCRYPT = [''vol'', ''vol-integrity'']"
    by (auto simp: world_mapped_def world0_def delete_order_def)
  from nf d mode delete_volume_order_and_tolerance [OF fd, of world_mapped "''vol''" CRYPTFS_MODE_INTEGRITY_ENCRYPT]
       delete_volume_order_and_tolerance [OF fd, of world0 "''vol''" CRYPTFS_MODE_INTEGRITY_ENCRYPT]
  show ?thesis by simp
qed

subsection \<open>Bind mounts\<close>




subsection \<open>The command line\<close>

lemma build_message_unknown:
  assumes "\<forall>c \<in> set known_commands. strcasecmp command c \<noteq> 0"
  shows "build_message env command rest = Some (CONTROLLER_TO_TPM__INIT, False)"
  using assms by (simp add: build_message_def known_commands_def)

text \<open>
  C10. When the options are accepted, the socket file exists and the command equals none
  of the seven known commands (case ignored), \<open>main\<close> does what \<open>send_message\<close> does
  with the message as \<open>CONTROLLER_TO_TPM__INIT\<close> left it and \<open>has_response\<close> false:
  usage is not printed, the exit status is not \<open>-1\<close>, no response is awaited, and when
  connecting and sending work, the message is sent and the status is 0.
\<close>

theorem unknown_command_falls_through:
  assumes opts: "global_options (TPM2D_SOCKET env) opts = Some socket_file"
    and ex: "file_exists env socket_file"
    and unknown: "\<forall>c \<in> set known_commands. strcasecmp command c \<noteq> 0"
  shows "main env opts (command # rest) = send_message env socket_file CONTROLLER_TO_TPM__INIT False
     \<and> PrintUsage \<notin> set (snd (main env opts (command # rest)))
     \<and> fst (main env opts (command # rest)) \<noteq> - 1
     \<and> RecvMessage \<notin> set (snd (main env opts (command # rest)))
     \<and> (connect_ok env socket_file \<and> send_ok env \<longrightarrow>
          main env opts (command # rest)
            = (0, [DumpMessage CONTROLLER_TO_TPM__INIT, Connect socket_file,
                   SendMessage CONTROLLER_TO_TPM__INIT]))"
proof -
  have m: "main env opts (command # rest) = send_message env socket_file CONTROLLER_TO_TPM__INIT False"
    using opts ex build_message_unknown [OF unknown]
    by (simp add: main_def)
  show ?thesis
    unfolding m by (simp add: send_message_def)
qed

theorem unknown_command_falls_through_witness:
  "main cli_env0 [] [''status''] =
     (0, [DumpMessage CONTROLLER_TO_TPM__INIT, Connect ''/run/socket/cml-tpm2d-control'',
          SendMessage CONTROLLER_TO_TPM__INIT])"
proof -
  have o: "global_options (TPM2D_SOCKET cli_env0) [] = Some ''/run/socket/cml-tpm2d-control''"
    by (simp add: cli_env0_def)
  have e: "file_exists cli_env0 ''/run/socket/cml-tpm2d-control''"
    by (simp add: cli_env0_def)
  have u: "\<forall>c \<in> set known_commands. strcasecmp ''status'' c \<noteq> 0"
    by (simp add: known_commands_def strcasecmp_def tolower_def)
  have c: "connect_ok cli_env0 ''/run/socket/cml-tpm2d-control'' \<and> send_ok cli_env0"
    by (simp add: cli_env0_def)
  from c unknown_command_falls_through [OF o e u, of "[]"] show ?thesis by blast
qed

end
